theory Spec2Isabelle
  imports Complex_Main
begin

section \<open>Python values shared by the three modules\<close>

text \<open>
  Exceptions are values. Every constructor below stands for a subclass of Python's
  \<^verbatim>\<open>Exception\<close>, so a handler \<^verbatim>\<open>except Exception\<close> catches all of them;
  each carries the text that \<^verbatim>\<open>str(e)\<close> prints. \<^verbatim>\<open>HttpError\<close> is the class of
  \<^verbatim>\<open>googleapiclient.errors\<close>, \<^verbatim>\<open>OutputParserException\<close> the one the JSON output
  parser raises, \<^verbatim>\<open>OtherException\<close> any other subclass. Conditions outside
  \<^verbatim>\<open>Exception\<close> (a keyboard interrupt, an interpreter exit) are not modelled.
\<close>

datatype exn =
    ValueError string
  | OSError string
  | KeyError string
  | HttpError string
  | OutputParserException string
  | OtherException string

fun str_exn :: "exn \<Rightarrow> string" where
  "str_exn (ValueError m) = m"
| "str_exn (OSError m) = m"
| "str_exn (KeyError m) = m"
| "str_exn (HttpError m) = m"
| "str_exn (OutputParserException m) = m"
| "str_exn (OtherException m) = m"

text \<open>\<^verbatim>\<open>sep.join(xs)\<close> of Python.\<close>

fun join :: "string \<Rightarrow> string list \<Rightarrow> string" where
  "join sep [] = []"
| "join sep [x] = x"
| "join sep (x # y # ys) = x @ sep @ join sep (y # ys)"

text \<open>\<^verbatim>\<open>s.endswith(suffix)\<close> of Python.\<close>

definition endswith :: "string \<Rightarrow> string \<Rightarrow> bool" where
  "endswith s suf = (length suf \<le> length s \<and> drop (length s - length suf) s = suf)"

text \<open>The decimal text of an integer, as an f-string prints it.\<close>

definition digit_char :: "nat \<Rightarrow> char" where
  "digit_char d = ''0123456789'' ! d"

function str_nat :: "nat \<Rightarrow> string" where
  "str_nat n = (if n < 10 then [digit_char n] else str_nat (n div 10) @ [digit_char (n mod 10)])"
  by pat_completeness auto
termination
  by (relation "measure id") auto

declare str_nat.simps [simp del]

definition str_int :: "int \<Rightarrow> string" where
  "str_int i = (if i < 0 then CHR ''-'' # str_nat (nat (- i)) else str_nat (nat i))"

section \<open>RAG.py: utility extraction\<close>

subsection \<open>\<^verbatim>\<open>get_text_from_pdf\<close>\<close>

text \<open>
  \<^verbatim>\<open>fitz.open(pdf_path)\<close> either raises or yields the document, a sequence of pages;
  \<^verbatim>\<open>page.get_text()\<close> either raises or yields the page's text. A page is modelled
  by the outcome of its \<^verbatim>\<open>get_text\<close>, the library by the outcome of \<^verbatim>\<open>open\<close> on
  each path.
\<close>

type_synonym page = "exn + string"
type_synonym fitz = "string \<Rightarrow> exn + page list"

text \<open>The loop \<^verbatim>\<open>for page in doc: full_text += page.get_text()\<close>.\<close>

fun read_pages :: "page list \<Rightarrow> string \<Rightarrow> exn + string" where
  "read_pages [] full_text = Inr full_text"
| "read_pages (p # ps) full_text =
     (case p of Inl e \<Rightarrow> Inl e | Inr t \<Rightarrow> read_pages ps (full_text @ t))"

definition pdf_error_line :: "string \<Rightarrow> exn \<Rightarrow> string" where
  "pdf_error_line pdf_path e = ''Error reading PDF '' @ pdf_path @ '': '' @ str_exn e"

text \<open>The result is the returned string and the lines printed.\<close>

definition get_text_from_pdf :: "fitz \<Rightarrow> string \<Rightarrow> string \<times> string list" where
  "get_text_from_pdf fitz_open pdf_path =
     (case (case fitz_open pdf_path of
              Inl e \<Rightarrow> Inl e
            | Inr doc \<Rightarrow> read_pages doc []) of
        Inr full_text \<Rightarrow> (full_text, [])
      | Inl e \<Rightarrow> ([], [pdf_error_line pdf_path e]))"

subsection \<open>\<^verbatim>\<open>extract_email_from_text\<close>\<close>

text \<open>
  The pattern of the source is a sequence of items, each a word boundary, or a greedy
  repetition of one character set. \<^verbatim>\<open>re.search\<close> tries the start positions from
  left to right; at one position a greedy repetition first takes as many characters as
  it can (at most its upper bound) and gives them back one by one, down to its lower
  bound, until the rest of the pattern matches. Text is ASCII: a word character is a
  letter, a digit or the underscore.
\<close>

datatype set_item = Range char char | Single char

datatype re_item =
    Boundary
  | Repeat nat "nat option" "set_item list"

fun in_item :: "char \<Rightarrow> set_item \<Rightarrow> bool" where
  "in_item c (Range lo hi) = ((of_char lo :: nat) \<le> of_char c \<and> (of_char c :: nat) \<le> of_char hi)"
| "in_item c (Single d) = (c = d)"

definition in_set :: "set_item list \<Rightarrow> char \<Rightarrow> bool" where
  "in_set items c = list_ex (in_item c) items"

definition is_word :: "char \<Rightarrow> bool" where
  "is_word c = in_set [Range CHR ''a'' CHR ''z'', Range CHR ''A'' CHR ''Z'',
                       Range CHR ''0'' CHR ''9'', Single CHR ''_''] c"

definition word_at :: "char option \<Rightarrow> bool" where
  "word_at c = (case c of None \<Rightarrow> False | Some x \<Rightarrow> is_word x)"

definition next_char :: "string \<Rightarrow> char option" where
  "next_char s = (case s of [] \<Rightarrow> None | c # _ \<Rightarrow> Some c)"

definition prev_after :: "char option \<Rightarrow> string \<Rightarrow> nat \<Rightarrow> char option" where
  "prev_after prev s k = (if k = 0 then prev else Some (s ! (k - 1)))"

text \<open>
  \<open>give_back rest prev s lo k\<close>: the repetition holds the first \<open>k\<close> characters of
  \<open>s\<close>; try the rest of the pattern after them, and on failure give one back, never
  going below \<open>lo\<close>. The result is the length of the whole match.
\<close>

fun give_back :: "(char option \<Rightarrow> string \<Rightarrow> nat option) \<Rightarrow> char option \<Rightarrow> string \<Rightarrow> nat \<Rightarrow> nat \<Rightarrow> nat option" where
  "give_back rest prev s lo 0 =
     (if lo = 0 then rest prev s else None)"
| "give_back rest prev s lo (Suc k) =
     (if Suc k < lo then None
      else case rest (prev_after prev s (Suc k)) (drop (Suc k) s) of
             Some n \<Rightarrow> Some (Suc k + n)
           | None \<Rightarrow> give_back rest prev s lo k)"

definition greedy_count :: "set_item list \<Rightarrow> nat option \<Rightarrow> string \<Rightarrow> nat" where
  "greedy_count items hi s =
     (let n = length (takeWhile (in_set items) s)
      in case hi of None \<Rightarrow> n | Some h \<Rightarrow> min n h)"

primrec match_items :: "re_item list \<Rightarrow> char option \<Rightarrow> string \<Rightarrow> nat option" where
  "match_items [] = (\<lambda>prev s. Some 0)"
| "match_items (it # its) =
     (\<lambda>prev s. case it of
        Boundary \<Rightarrow>
          (if word_at prev \<noteq> word_at (next_char s) then match_items its prev s else None)
      | Repeat lo hi items \<Rightarrow>
          give_back (match_items its) prev s lo (greedy_count items hi s))"

fun search_from :: "re_item list \<Rightarrow> char option \<Rightarrow> string \<Rightarrow> string option" where
  "search_from p prev [] =
     (case match_items p prev [] of Some n \<Rightarrow> Some [] | None \<Rightarrow> None)"
| "search_from p prev (c # cs) =
     (case match_items p prev (c # cs) of
        Some n \<Rightarrow> Some (take n (c # cs))
      | None \<Rightarrow> search_from p (Some c) cs)"

definition re_search :: "re_item list \<Rightarrow> string \<Rightarrow> string option" where
  "re_search p text = search_from p None text"

text \<open>
  \<^verbatim>\<open>r'\b[A-Za-z0-9._%+-]+@[A-Za-z0-9.-]+\.[A-Z|a-z]{2,7}\b'\<close>. Inside the last
  brackets the bar is a member of the set, as the source writes it.
\<close>

definition email_pattern :: "re_item list" where
  "email_pattern =
     [Boundary,
      Repeat 1 None [Range CHR ''A'' CHR ''Z'', Range CHR ''a'' CHR ''z'', Range CHR ''0'' CHR ''9'',
                     Single CHR ''.'', Single CHR ''_'', Single CHR ''%'', Single CHR ''+'', Single CHR ''-''],
      Repeat 1 (Some 1) [Single CHR ''@''],
      Repeat 1 None [Range CHR ''A'' CHR ''Z'', Range CHR ''a'' CHR ''z'', Range CHR ''0'' CHR ''9'',
                     Single CHR ''.'', Single CHR ''-''],
      Repeat 1 (Some 1) [Single CHR ''.''],
      Repeat 2 (Some 7) [Range CHR ''A'' CHR ''Z'', Single CHR ''|'', Range CHR ''a'' CHR ''z''],
      Boundary]"

definition extract_email_from_text :: "string \<Rightarrow> string option" where
  "extract_email_from_text text = re_search email_pattern text"

text \<open>
  The pattern as the specification words it: the same, with a top-level label of
  two to seven letters.
\<close>

definition spec_email_pattern :: "re_item list" where
  "spec_email_pattern =
     [Boundary,
      Repeat 1 None [Range CHR ''A'' CHR ''Z'', Range CHR ''a'' CHR ''z'', Range CHR ''0'' CHR ''9'',
                     Single CHR ''.'', Single CHR ''_'', Single CHR ''%'', Single CHR ''+'', Single CHR ''-''],
      Repeat 1 (Some 1) [Single CHR ''@''],
      Repeat 1 None [Range CHR ''A'' CHR ''Z'', Range CHR ''a'' CHR ''z'', Range CHR ''0'' CHR ''9'',
                     Single CHR ''.'', Single CHR ''-''],
      Repeat 1 (Some 1) [Single CHR ''.''],
      Repeat 2 (Some 7) [Range CHR ''A'' CHR ''Z'', Range CHR ''a'' CHR ''z''],
      Boundary]"

section \<open>RAG.py: the pipeline\<close>

subsection \<open>Documents, structured output, external libraries\<close>

record document =
  page_content :: string
  metadata :: "(string \<times> string) list"

text \<open>
  Python values as the modules handle them: what the JSON output parser yields, the
  bodies sent to the Google services and their replies. A dictionary keeps its keys
  in insertion order.
\<close>

datatype pyval =
    PNone
  | PBool bool
  | PNum rat
  | PStr string
  | PList "pyval list"
  | PDict "(string \<times> pyval) list"

text \<open>
  What a function prints and which external services it calls is recorded, in order,
  in a trace that the function takes and returns extended.
\<close>

datatype event =
    Print string
  | EmbeddingsInit string
  | ChromaFromDocuments "document list" string
  | RetrieverInvoke nat string
  | LLMInvoke string

text \<open>
  The libraries the module calls are parameters: each field gives the outcome of one
  call, an exception or a value. A loader object is modelled by the outcome of its
  \<^verbatim>\<open>load()\<close>; \<open>split_documents c o docs\<close> is
  \<^verbatim>\<open>RecursiveCharacterTextSplitter(chunk_size=c, chunk_overlap=o, length_function=len).split_documents(docs)\<close>;
  \<open>retriever_invoke vs k q\<close> is
  \<^verbatim>\<open>vs.as_retriever(search_kwargs={"k": k}).invoke(q)\<close>;
  \<open>JsonOutputParser\<close> is the parser applied to the model's reply.
\<close>

type_synonym loader = "exn + document list"

record ('emb, 'vs) libs =
  listdir :: "string \<Rightarrow> exn + string list"
  PyPDFLoader :: "string \<Rightarrow> exn + loader"
  Docx2txtLoader :: "string \<Rightarrow> exn + loader"
  split_documents :: "nat \<Rightarrow> nat \<Rightarrow> document list \<Rightarrow> exn + document list"
  HuggingFaceEmbeddings :: "string \<Rightarrow> exn + 'emb"
  Chroma_from_documents :: "document list \<Rightarrow> 'emb \<Rightarrow> string \<Rightarrow> exn + 'vs"
  retriever_invoke :: "'vs \<Rightarrow> nat \<Rightarrow> string \<Rightarrow> exn + document list"
  JsonOutputParser :: "string \<Rightarrow> exn + pyval"

datatype template_part = Text string | Var string

record 'vs ResumeRAG =
  folder_path :: string
  llm :: "string \<Rightarrow> exn + string"
  vectorstore :: 'vs
  prompt_template :: "template_part list"

subsection \<open>\<^verbatim>\<open>_load_documents_from_folder\<close>\<close>

text \<open>\<^verbatim>\<open>os.path.join(a, b)\<close> on a POSIX system.\<close>

definition path_join :: "string \<Rightarrow> string \<Rightarrow> string" where
  "path_join a b =
     (if b \<noteq> [] \<and> hd b = CHR ''/'' then b
      else if a = [] \<or> last a = CHR ''/'' then a @ b
      else a @ ''/'' @ b)"

definition unsupported_line :: "string \<Rightarrow> string" where
  "unsupported_line filename = ''Unsupported file type skipped: '' @ filename"

definition load_error_line :: "string \<Rightarrow> exn \<Rightarrow> string" where
  "load_error_line filename e = ''Error loading file '' @ filename @ '': '' @ str_exn e"

text \<open>
  The loader for one entry: \<open>None\<close> when the extension is neither \<^verbatim>\<open>.pdf\<close> nor
  \<^verbatim>\<open>.docx\<close>, else the outcome of the constructor.
\<close>

definition make_loader :: "('emb, 'vs) libs \<Rightarrow> string \<Rightarrow> string \<Rightarrow> (exn + loader) option" where
  "make_loader L filename file_path =
     (if endswith filename ''.pdf'' then Some (PyPDFLoader L file_path)
      else if endswith filename ''.docx'' then Some (Docx2txtLoader L file_path)
      else None)"

text \<open>
  The loop over the directory entries, \<open>documents\<close> being the list built so far. The
  constructor is called before the \<^verbatim>\<open>try\<close> block, so its exception leaves the
  loop and the function; an exception of \<^verbatim>\<open>load()\<close> is caught, printed, and the loop
  goes on.
\<close>

fun load_files ::
  "('emb, 'vs) libs \<Rightarrow> string \<Rightarrow> string list \<Rightarrow> document list \<Rightarrow> event list
     \<Rightarrow> (exn + document list) \<times> event list" where
  "load_files L folder [] documents tr = (Inr documents, tr)"
| "load_files L folder (filename # rest) documents tr =
     (case make_loader L filename (path_join folder filename) of
        None \<Rightarrow> load_files L folder rest documents (tr @ [Print (unsupported_line filename)])
      | Some (Inl e) \<Rightarrow> (Inl e, tr)
      | Some (Inr (Inr docs)) \<Rightarrow> load_files L folder rest (documents @ docs) tr
      | Some (Inr (Inl e)) \<Rightarrow>
          load_files L folder rest documents (tr @ [Print (load_error_line filename e)]))"

definition load_documents_from_folder ::
  "('emb, 'vs) libs \<Rightarrow> string \<Rightarrow> event list \<Rightarrow> (exn + document list) \<times> event list" where
  "load_documents_from_folder L folder tr =
     (case listdir L folder of
        Inl e \<Rightarrow> (Inl e, tr)
      | Inr names \<Rightarrow> load_files L folder names [] tr)"

text \<open>
  What one entry contributes: the documents of its loader when the loader is
  constructed and loads, the line printed when the entry is skipped, and whether the
  constructor returned at all.
\<close>

definition entry_documents :: "('emb, 'vs) libs \<Rightarrow> string \<Rightarrow> string \<Rightarrow> document list" where
  "entry_documents L folder filename =
     (case make_loader L filename (path_join folder filename) of
        Some (Inr (Inr docs)) \<Rightarrow> docs
      | _ \<Rightarrow> [])"

definition entry_lines :: "('emb, 'vs) libs \<Rightarrow> string \<Rightarrow> string \<Rightarrow> string list" where
  "entry_lines L folder filename =
     (case make_loader L filename (path_join folder filename) of
        None \<Rightarrow> [unsupported_line filename]
      | Some (Inr (Inl e)) \<Rightarrow> [load_error_line filename e]
      | _ \<Rightarrow> [])"

definition constructed :: "('emb, 'vs) libs \<Rightarrow> string \<Rightarrow> string \<Rightarrow> bool" where
  "constructed L folder filename =
     (case make_loader L filename (path_join folder filename) of
        Some (Inl e) \<Rightarrow> False
      | _ \<Rightarrow> True)"

subsection \<open>\<^verbatim>\<open>_load_and_process_documents\<close> and \<^verbatim>\<open>__init__\<close>\<close>

definition no_documents :: exn where
  "no_documents = ValueError ''No documents found in the specified folder.''"

definition build_index ::
  "('emb, 'vs) libs \<Rightarrow> document list \<Rightarrow> event list \<Rightarrow> (exn + 'vs) \<times> event list" where
  "build_index L documents tr =
     (case split_documents L 1000 200 documents of
        Inl e \<Rightarrow> (Inl e, tr)
      | Inr splits \<Rightarrow>
          (let tr1 = tr @ [Print (''Split documents into '' @ str_nat (length splits) @ '' chunks.''),
                           EmbeddingsInit ''sentence-transformers/all-MiniLM-L6-v2'']
           in case HuggingFaceEmbeddings L ''sentence-transformers/all-MiniLM-L6-v2'' of
                Inl e \<Rightarrow> (Inl e, tr1)
              | Inr embeddings \<Rightarrow>
                  (let tr2 = tr1 @ [Print ''Creating vector database...'',
                                    ChromaFromDocuments splits ''./chroma_db'']
                   in case Chroma_from_documents L splits embeddings ''./chroma_db'' of
                        Inl e \<Rightarrow> (Inl e, tr2)
                      | Inr vs \<Rightarrow> (Inr vs, tr2 @ [Print ''Vector database created successfully.'']))))"

definition load_and_process_documents ::
  "('emb, 'vs) libs \<Rightarrow> string \<Rightarrow> event list \<Rightarrow> (exn + 'vs) \<times> event list" where
  "load_and_process_documents L folder tr =
     (case load_documents_from_folder L folder (tr @ [Print (''Loading documents from: '' @ folder)]) of
        (Inl e, tr1) \<Rightarrow> (Inl e, tr1)
      | (Inr documents, tr1) \<Rightarrow>
          (let tr2 = tr1 @ [Print (''Loaded '' @ str_nat (length documents) @ '' documents.'')]
           in if documents = [] then (Inl no_documents, tr2)
              else build_index L documents tr2))"

subsection \<open>\<^verbatim>\<open>_get_prompt_template\<close>\<close>

definition get_prompt_template :: "template_part list" where
  \<open>get_prompt_template =
    [Text (''\<newline>''
         @ ''            You are an expert HR screening assistant. Your task is to analyze the provided resume context and generate two numerical ratings based on specific criteria.\<newline>''
         @ ''\<newline>''
         @ ''            **Context from Resume:**\<newline>''
         @ ''            ---\<newline>''
         @ ''            ''),
     Var ''context'',
     Text (''\<newline>''
         @ ''            ---\<newline>''
         @ ''\<newline>''
         @ ''            **Evaluation Criteria:**\<newline>''
         @ ''\<newline>''
         @ ''            1.  **Work Experience:** The ideal candidate has at least **''),
     Var ''required_experience'',
     Text ('' years** of total work experience.\<newline>''
         @ ''            2.  **Skills:** The ideal candidate has expertise in the following technologies: **''),
     Var ''required_skills'',
     Text (''**.\<newline>''
         @ ''\<newline>''
         @ ''            **Instructions:**\<newline>''
         @ ''\<newline>''
         @ ''            1.  **For 'work_ex_rating':** Carefully review the context to determine the candidate's total work experience.\<newline>''
         @ ''                - If the candidate has ''),
     Var ''required_experience'',
     Text ('' or more years of experience, rate them between 8 and 10.\<newline>''
         @ ''                - If they have less, provide a proportionally lower score.\<newline>''
         @ ''                - If no work experience is mentioned, the score is 0.\<newline>''
         @ ''\<newline>''
         @ ''            2.  **For 'skills_rating':** Carefully review the context for mentions of the required skills (''),
     Var ''required_skills'',
     Text ('').\<newline>''
         @ ''                - The score should reflect how many of the required skills are present. A candidate with all skills should receive a high score (8-10).\<newline>''
         @ ''                - If proficiency levels are mentioned (e.g., "expert," "advanced"), consider that in your rating.\<newline>''
         @ ''                - If no relevant skills are mentioned, the score is 0.\<newline>''
         @ ''\<newline>''
         @ ''            **Output Format:**\<newline>''
         @ ''            Provide your response ONLY as a JSON object with two keys: "work_ex_rating" and "skills_rating".\<newline>''
         @ ''            '')]\<close>

text \<open>
  The text of the template with the three values written in the place of the variables:
  what \<^verbatim>\<open>prompt_template.format(context=..., required_experience=..., required_skills=...)\<close>
  gives.
\<close>

definition filled_prompt :: "string \<Rightarrow> string \<Rightarrow> string \<Rightarrow> string" where
  \<open>filled_prompt context required_experience required_skills =
     ''\<newline>''
     @ ''            You are an expert HR screening assistant. Your task is to analyze the provided resume context and generate two numerical ratings based on specific criteria.\<newline>''
     @ ''\<newline>''
     @ ''            **Context from Resume:**\<newline>''
     @ ''            ---\<newline>''
     @ ''            ''
     @ context
     @ ''\<newline>''
     @ ''            ---\<newline>''
     @ ''\<newline>''
     @ ''            **Evaluation Criteria:**\<newline>''
     @ ''\<newline>''
     @ ''            1.  **Work Experience:** The ideal candidate has at least **''
     @ required_experience
     @ '' years** of total work experience.\<newline>''
     @ ''            2.  **Skills:** The ideal candidate has expertise in the following technologies: **''
     @ required_skills
     @ ''**.\<newline>''
     @ ''\<newline>''
     @ ''            **Instructions:**\<newline>''
     @ ''\<newline>''
     @ ''            1.  **For 'work_ex_rating':** Carefully review the context to determine the candidate's total work experience.\<newline>''
     @ ''                - If the candidate has ''
     @ required_experience
     @ '' or more years of experience, rate them between 8 and 10.\<newline>''
     @ ''                - If they have less, provide a proportionally lower score.\<newline>''
     @ ''                - If no work experience is mentioned, the score is 0.\<newline>''
     @ ''\<newline>''
     @ ''            2.  **For 'skills_rating':** Carefully review the context for mentions of the required skills (''
     @ required_skills
     @ '').\<newline>''
     @ ''                - The score should reflect how many of the required skills are present. A candidate with all skills should receive a high score (8-10).\<newline>''
     @ ''                - If proficiency levels are mentioned (e.g., "expert," "advanced"), consider that in your rating.\<newline>''
     @ ''                - If no relevant skills are mentioned, the score is 0.\<newline>''
     @ ''\<newline>''
     @ ''            **Output Format:**\<newline>''
     @ ''            Provide your response ONLY as a JSON object with two keys: "work_ex_rating" and "skills_rating".\<newline>''
     @ ''            ''\<close>

definition ResumeRAG_init ::
  "('emb, 'vs) libs \<Rightarrow> string \<Rightarrow> (string \<Rightarrow> exn + string) \<Rightarrow> event list
     \<Rightarrow> (exn + 'vs ResumeRAG) \<times> event list" where
  "ResumeRAG_init L folder model tr =
     (case load_and_process_documents L folder tr of
        (Inl e, tr1) \<Rightarrow> (Inl e, tr1)
      | (Inr vs, tr1) \<Rightarrow>
          (Inr \<lparr>folder_path = folder, llm = model, vectorstore = vs,
                prompt_template = get_prompt_template\<rparr>, tr1))"

subsection \<open>\<^verbatim>\<open>rate_candidate\<close>\<close>

text \<open>
  The template is filled as \<^verbatim>\<open>str.format\<close> does: each variable is replaced by the
  text given for it, and a variable with no text raises \<^verbatim>\<open>KeyError\<close>.
\<close>

fun format_template :: "template_part list \<Rightarrow> (string \<times> string) list \<Rightarrow> exn + string" where
  "format_template [] inputs = Inr []"
| "format_template (Text t # ps) inputs =
     (case format_template ps inputs of Inl e \<Rightarrow> Inl e | Inr r \<Rightarrow> Inr (t @ r))"
| "format_template (Var v # ps) inputs =
     (case map_of inputs v of
        None \<Rightarrow> Inl (KeyError ([CHR 0x27] @ v @ [CHR 0x27]))
      | Some x \<Rightarrow> (case format_template ps inputs of Inl e \<Rightarrow> Inl e | Inr r \<Rightarrow> Inr (x @ r)))"

definition retriever_query :: "int \<Rightarrow> string list \<Rightarrow> string" where
  "retriever_query required_experience_years required_skills_list =
     ''A candidate with at least '' @ str_int required_experience_years
       @ '' years of work experience '' @ ''and expertise in ''
       @ join '', '' required_skills_list @ ''.''"

definition context_text :: "document list \<Rightarrow> string" where
  "context_text relevant_docs = join ''\<newline>\<newline>'' (map page_content relevant_docs)"

definition chain_inputs :: "string \<Rightarrow> int \<Rightarrow> string list \<Rightarrow> (string \<times> string) list" where
  "chain_inputs context required_experience_years required_skills_list =
     [(''context'', context),
      (''required_experience'', str_int required_experience_years),
      (''required_skills'', join '', '' required_skills_list)]"

text \<open>
  The chain \<^verbatim>\<open>prompt_template | llm | JsonOutputParser()\<close>: each stage takes the
  value of the stage before it, and an exception of any stage leaves the chain.
\<close>

definition chain_invoke ::
  "('emb, 'vs) libs \<Rightarrow> 'vs ResumeRAG \<Rightarrow> (string \<times> string) list \<Rightarrow> event list
     \<Rightarrow> (exn + pyval) \<times> event list" where
  "chain_invoke L self inputs tr =
     (case format_template (prompt_template self) inputs of
        Inl e \<Rightarrow> (Inl e, tr)
      | Inr prompt \<Rightarrow>
          (case llm self prompt of
             Inl e \<Rightarrow> (Inl e, tr @ [LLMInvoke prompt])
           | Inr reply \<Rightarrow> (JsonOutputParser L reply, tr @ [LLMInvoke prompt])))"

definition retrieving_line :: "string \<Rightarrow> string" where
  "retrieving_line q = ''\<newline>Retrieving documents for query: '' @ [CHR 0x27] @ q @ [CHR 0x27]"

definition rate_candidate ::
  "('emb, 'vs) libs \<Rightarrow> 'vs ResumeRAG \<Rightarrow> int \<Rightarrow> string list \<Rightarrow> event list
     \<Rightarrow> (exn + pyval) \<times> event list" where
  "rate_candidate L self required_experience_years required_skills_list tr =
     (let q = retriever_query required_experience_years required_skills_list;
          tr1 = tr @ [Print (retrieving_line q), RetrieverInvoke 5 q]
      in case retriever_invoke L (vectorstore self) 5 q of
           Inl e \<Rightarrow> (Inl e, tr1)
         | Inr relevant_docs \<Rightarrow>
             chain_invoke L self
               (chain_inputs (context_text relevant_docs) required_experience_years required_skills_list)
               (tr1 @ [Print ''Invoking LLM to generate ratings...'']))"


subsection \<open>The text splitter\<close>

text \<open>
  Modelled from the spec: the chunker. The source only configures and calls
  \<^verbatim>\<open>RecursiveCharacterTextSplitter\<close> of the \<^verbatim>\<open>langchain_text_splitters\<close> package,
  whose code is not part of the repository. The specification (section 4.2) describes
  it: text is split recursively on a priority list of separators (paragraph break,
  line break, word break, then single characters), pieces below the chunk size are
  merged into chunks that do not exceed it, and the tail of a chunk, up to the overlap,
  is repeated at the head of the next. Where the specification is silent the model
  follows the package's defaults: a separator stays at the head of the piece after it,
  and a chunk is stripped of surrounding white space and dropped when nothing is left.
\<close>

definition is_space :: "char \<Rightarrow> bool" where
  "is_space c = (let n = (of_char c :: nat) in (9 \<le> n \<and> n \<le> 13) \<or> (28 \<le> n \<and> n \<le> 32))"

definition strip :: "string \<Rightarrow> string" where
  "strip s = rev (dropWhile is_space (rev (dropWhile is_space s)))"

definition join_docs :: "string list \<Rightarrow> string list" where
  "join_docs docs = (let text = strip (concat docs) in if text = [] then [] else [text])"

text \<open>
  The inner loop of the merge: pieces leave the front of the current chunk while it
  is longer than the overlap, or while the next piece (of length \<open>l\<close>) does not fit.
  \<open>tot\<close> is the length of the current chunk.
\<close>

fun pop_overlap :: "nat \<Rightarrow> nat \<Rightarrow> nat \<Rightarrow> string list \<Rightarrow> nat \<Rightarrow> string list \<times> nat" where
  "pop_overlap C O' l [] tot = ([], tot)"
| "pop_overlap C O' l (d # ds) tot =
     (if tot > O' \<or> (tot + l > C \<and> tot > 0)
      then pop_overlap C O' l ds (tot - length d)
      else (d # ds, tot))"

fun merge_loop :: "nat \<Rightarrow> nat \<Rightarrow> string list \<Rightarrow> string list \<Rightarrow> nat \<Rightarrow> string list \<Rightarrow> string list" where
  "merge_loop C O' [] current_doc tot docs = docs @ join_docs current_doc"
| "merge_loop C O' (d # ds) current_doc tot docs =
     (if tot + length d > C \<and> current_doc \<noteq> []
      then (case pop_overlap C O' (length d) current_doc tot of
              (kept, tot') \<Rightarrow>
                merge_loop C O' ds (kept @ [d]) (tot' + length d) (docs @ join_docs current_doc))
      else merge_loop C O' ds (current_doc @ [d]) (tot + length d) docs)"

definition merge_splits :: "nat \<Rightarrow> nat \<Rightarrow> string list \<Rightarrow> string list" where
  "merge_splits C O' splits = merge_loop C O' splits [] 0 []"

text \<open>Splitting at a separator, which stays at the head of the piece that follows it.\<close>

function split_sep :: "string \<Rightarrow> string \<Rightarrow> string \<Rightarrow> string list" where
  "split_sep sep cur [] = [cur]"
| "split_sep sep cur (c # cs) =
     (if sep \<noteq> [] \<and> take (length sep) (c # cs) = sep
      then cur # split_sep sep sep (drop (length sep) (c # cs))
      else split_sep sep (cur @ [c]) cs)"
  by pat_completeness auto
termination
  by (relation "measure (\<lambda>(sep, cur, s). length s)") auto

fun occurs :: "string \<Rightarrow> string \<Rightarrow> bool" where
  "occurs sep [] = (sep = [])"
| "occurs sep (c # cs) = (take (length sep) (c # cs) = sep \<or> occurs sep cs)"

definition split_pieces :: "string \<Rightarrow> string \<Rightarrow> string list" where
  "split_pieces sep text =
     (if sep = [] then map (\<lambda>c. [c]) text else filter (\<lambda>s. s \<noteq> []) (split_sep sep [] text))"

text \<open>
  The loop over the pieces: pieces shorter than the chunk size are collected and merged;
  a piece that is not is split further by \<open>further\<close>, after the pieces collected so
  far are merged.
\<close>

definition flush :: "nat \<Rightarrow> nat \<Rightarrow> string list \<Rightarrow> string list" where
  "flush C O' good_splits = (if good_splits = [] then [] else merge_splits C O' good_splits)"

fun split_loop ::
  "nat \<Rightarrow> nat \<Rightarrow> (string \<Rightarrow> string list) \<Rightarrow> string list \<Rightarrow> string list \<Rightarrow> string list \<Rightarrow> string list" where
  "split_loop C O' further [] good_splits final_chunks = final_chunks @ flush C O' good_splits"
| "split_loop C O' further (s # ss) good_splits final_chunks =
     (if length s < C then split_loop C O' further ss (good_splits @ [s]) final_chunks
      else split_loop C O' further ss [] (final_chunks @ flush C O' good_splits @ further s))"

text \<open>
  The first separator that is empty or occurs in the text is used, and the separators
  after it serve for the pieces that are still too long; with none left such a piece
  is a chunk as it is. When no separator applies the text is a single piece.
\<close>

primrec split_text_rec :: "nat \<Rightarrow> nat \<Rightarrow> string list \<Rightarrow> string \<Rightarrow> string list" where
  "split_text_rec C O' [] =
     (\<lambda>text. split_loop C O' (\<lambda>s. [s]) (filter (\<lambda>s. s \<noteq> []) [text]) [] [])"
| "split_text_rec C O' (sep # seps) =
     (\<lambda>text.
        if sep = [] then split_loop C O' (\<lambda>s. [s]) (split_pieces sep text) [] []
        else if occurs sep text
        then split_loop C O' (if seps = [] then (\<lambda>s. [s]) else split_text_rec C O' seps)
               (split_pieces sep text) [] []
        else split_text_rec C O' seps text)"

definition separators :: "string list" where
  "separators = [''\<newline>\<newline>'', ''\<newline>'', '' '', '''']"

definition split_text :: "nat \<Rightarrow> nat \<Rightarrow> string \<Rightarrow> string list" where
  "split_text C O' text = split_text_rec C O' separators text"

text \<open>Every chunk keeps the metadata of the document it comes from.\<close>

definition split_document :: "nat \<Rightarrow> nat \<Rightarrow> document \<Rightarrow> document list" where
  "split_document C O' doc =
     map (\<lambda>chunk. \<lparr>page_content = chunk, metadata = metadata doc\<rparr>) (split_text C O' (page_content doc))"

definition text_splitter :: "nat \<Rightarrow> nat \<Rightarrow> document list \<Rightarrow> exn + document list" where
  "text_splitter C O' docs =
     (if O' > C then Inl (ValueError ''Got a larger chunk overlap than chunk size.'')
      else Inr (concat (map (split_document C O') docs)))"

text \<open>The number of characters of a text that are not white space.\<close>

definition nonspace :: "string \<Rightarrow> nat" where
  "nonspace s = length (filter (\<lambda>c. \<not> is_space c) s)"

section \<open>Google credentials, shared by \<^verbatim>\<open>email_candidate.py\<close> and \<^verbatim>\<open>meeting_scheduler.py\<close>\<close>

record credentials =
  valid :: bool
  expired :: bool
  refresh_token :: "string option"
  to_json :: string

text \<open>
  The Google client libraries and the file system are parameters. Files are a map from
  path to content; \<open>write_file\<close> is \<^verbatim>\<open>open(path, "w")\<close> followed by the write.
  \<open>run_local_server\<close> stands for \<^verbatim>\<open>InstalledAppFlow.from_client_secrets_file\<close> and
  \<^verbatim>\<open>flow.run_local_server(port=0)\<close>; \<open>encode_message\<close> for building the
  \<^verbatim>\<open>EmailMessage\<close> and its base64url text; \<open>messages_send\<close> and \<open>events_insert\<close>
  for the two API requests with their \<^verbatim>\<open>execute()\<close>; \<open>py_str\<close> for the text an
  f-string prints for a value.
\<close>

type_synonym files = "string \<rightharpoonup> string"

record ('svc, 'dt) google =
  from_authorized_user_file :: "files \<Rightarrow> string \<Rightarrow> string list \<Rightarrow> exn + credentials"
  refresh :: "credentials \<Rightarrow> exn + credentials"
  run_local_server :: "files \<Rightarrow> string \<Rightarrow> string list \<Rightarrow> exn + credentials"
  write_file :: "files \<Rightarrow> string \<Rightarrow> string \<Rightarrow> exn + files"
  build :: "string \<Rightarrow> string \<Rightarrow> credentials \<Rightarrow> exn + 'svc"
  encode_message :: "string \<Rightarrow> string \<Rightarrow> string \<Rightarrow> string \<Rightarrow> exn + string"
  messages_send :: "'svc \<Rightarrow> string \<Rightarrow> pyval \<Rightarrow> exn + (string \<times> pyval) list"
  events_insert :: "'svc \<Rightarrow> string \<Rightarrow> pyval \<Rightarrow> bool \<Rightarrow> nat \<Rightarrow> exn + (string \<times> pyval) list"
  isoformat :: "'dt \<Rightarrow> string"
  py_str :: "pyval \<Rightarrow> string"

definition CREDENTIALS_FILE :: string where
  "CREDENTIALS_FILE = ''credentials.json''"

definition TOKEN_FILE :: string where
  "TOKEN_FILE = ''token.json''"

definition truthy :: "string option \<Rightarrow> bool" where
  "truthy t = (case t of None \<Rightarrow> False | Some x \<Rightarrow> x \<noteq> [])"

text \<open>The token is written back whenever the stored credentials were absent or not valid.\<close>

definition store_token ::
  "('svc, 'dt) google \<Rightarrow> files \<Rightarrow> exn + credentials \<Rightarrow> (exn + credentials) \<times> files" where
  "store_token G fs r =
     (case r of
        Inl e \<Rightarrow> (Inl e, fs)
      | Inr c \<Rightarrow>
          (case write_file G fs TOKEN_FILE (to_json c) of
             Inl e \<Rightarrow> (Inl e, fs)
           | Inr fs' \<Rightarrow> (Inr c, fs')))"

definition renew_credentials ::
  "('svc, 'dt) google \<Rightarrow> string list \<Rightarrow> files \<Rightarrow> credentials option \<Rightarrow> (exn + credentials) \<times> files" where
  "renew_credentials G scopes fs stored =
     (case stored of
        Some c \<Rightarrow>
          (if valid c then (Inr c, fs)
           else if expired c \<and> truthy (refresh_token c) then store_token G fs (refresh G c)
           else store_token G fs (run_local_server G fs CREDENTIALS_FILE scopes))
      | None \<Rightarrow> store_token G fs (run_local_server G fs CREDENTIALS_FILE scopes))"

definition get_credentials ::
  "('svc, 'dt) google \<Rightarrow> string list \<Rightarrow> files \<Rightarrow> (exn + credentials) \<times> files" where
  "get_credentials G scopes fs =
     (case fs TOKEN_FILE of
        None \<Rightarrow> renew_credentials G scopes fs None
      | Some _ \<Rightarrow>
          (case from_authorized_user_file G fs TOKEN_FILE scopes of
             Inl e \<Rightarrow> (Inl e, fs)
           | Inr c \<Rightarrow> renew_credentials G scopes fs (Some c)))"

section \<open>\<^verbatim>\<open>email_candidate.py\<close>\<close>

definition GMAIL_SCOPES :: "string list" where
  "GMAIL_SCOPES = [''https://www.googleapis.com/auth/gmail.send'']"

definition getitem :: "(string \<times> pyval) list \<Rightarrow> string \<Rightarrow> exn + pyval" where
  "getitem d k = (case map_of d k of None \<Rightarrow> Inl (KeyError ([CHR 0x27] @ k @ [CHR 0x27])) | Some v \<Rightarrow> Inr v)"

text \<open>
  The body of the \<^verbatim>\<open>try\<close> block up to the request: its value is the identifier that the
  success line prints, its exception whatever one of the steps raised.
\<close>

definition send_attempt ::
  "('svc, 'dt) google \<Rightarrow> string \<Rightarrow> string \<Rightarrow> string \<Rightarrow> string \<Rightarrow> files \<Rightarrow> (exn + pyval) \<times> files" where
  "send_attempt G recipient sender subject body fs =
     (case get_credentials G GMAIL_SCOPES fs of
        (Inl e, fs1) \<Rightarrow> (Inl e, fs1)
      | (Inr c, fs1) \<Rightarrow>
          (case build G ''gmail'' ''v1'' c of
             Inl e \<Rightarrow> (Inl e, fs1)
           | Inr svc \<Rightarrow>
               (case encode_message G recipient sender subject body of
                  Inl e \<Rightarrow> (Inl e, fs1)
                | Inr encoded_message \<Rightarrow>
                    (case messages_send G svc ''me'' (PDict [(''raw'', PStr encoded_message)]) of
                       Inl e \<Rightarrow> (Inl e, fs1)
                     | Inr send_message \<Rightarrow> (getitem send_message ''id'', fs1)))))"

definition check_mark :: string where
  "check_mark = [CHR 0xE2, CHR 0x9C, CHR 0x85]"

definition cross_mark :: string where
  "cross_mark = [CHR 0xE2, CHR 0x9D, CHR 0x8C]"

definition email_line :: "('svc, 'dt) google \<Rightarrow> exn + pyval \<Rightarrow> string" where
  "email_line G r =
     (case r of
        Inr ident \<Rightarrow> check_mark @ '' Email sent successfully! Message ID: '' @ py_str G ident
      | Inl (HttpError m) \<Rightarrow> cross_mark @ '' An error occurred: '' @ m
      | Inl e \<Rightarrow> ''An unexpected error occurred: '' @ str_exn e)"

text \<open>
  The result is what the call raises or returns, the files, and the lines printed. The
  function has no \<^verbatim>\<open>return\<close> statement and both handlers only print, so the value
  returned is \<^verbatim>\<open>None\<close> on every path.
\<close>

definition send_email ::
  "('svc, 'dt) google \<Rightarrow> string \<Rightarrow> string \<Rightarrow> string \<Rightarrow> string \<Rightarrow> files
     \<Rightarrow> (exn + pyval) \<times> files \<times> string list" where
  "send_email G recipient sender subject body fs =
     (case send_attempt G recipient sender subject body fs of
        (r, fs1) \<Rightarrow> (Inr PNone, fs1, [email_line G r]))"

section \<open>\<^verbatim>\<open>meeting_scheduler.py\<close>\<close>

definition CALENDAR_SCOPES :: "string list" where
  "CALENDAR_SCOPES = [''https://www.googleapis.com/auth/calendar'']"

definition TIMEZONE :: string where
  "TIMEZONE = ''Asia/Kolkata''"

record ('svc, 'dt) MeetingScheduler =
  summary :: string
  description :: string
  start_time :: 'dt
  end_time :: 'dt
  attendees :: "string list"
  creds :: credentials
  service :: 'svc

definition MeetingScheduler_init ::
  "('svc, 'dt) google \<Rightarrow> string \<Rightarrow> string \<Rightarrow> 'dt \<Rightarrow> 'dt \<Rightarrow> string list \<Rightarrow> files
     \<Rightarrow> (exn + ('svc, 'dt) MeetingScheduler) \<times> files" where
  "MeetingScheduler_init G summary' description' start_time' end_time' attendees' fs =
     (case get_credentials G CALENDAR_SCOPES fs of
        (Inl e, fs1) \<Rightarrow> (Inl e, fs1)
      | (Inr c, fs1) \<Rightarrow>
          (case build G ''calendar'' ''v3'' c of
             Inl e \<Rightarrow> (Inl e, fs1)
           | Inr svc \<Rightarrow>
               (Inr \<lparr>summary = summary', description = description', start_time = start_time',
                     end_time = end_time', attendees = attendees', creds = c, service = svc\<rparr>, fs1)))"

text \<open>\<open>now\<close> is the text of \<^verbatim>\<open>datetime.datetime.now().timestamp()\<close>.\<close>

definition build_event_body ::
  "('svc, 'dt) google \<Rightarrow> ('svc, 'dt) MeetingScheduler \<Rightarrow> string \<Rightarrow> pyval" where
  "build_event_body G self now =
     PDict
       [(''summary'', PStr (summary self)),
        (''description'', PStr (description self)),
        (''start'', PDict [(''dateTime'', PStr (isoformat G (start_time self))),
                          (''timeZone'', PStr TIMEZONE)]),
        (''end'', PDict [(''dateTime'', PStr (isoformat G (end_time self))),
                        (''timeZone'', PStr TIMEZONE)]),
        (''attendees'', PList (map (\<lambda>email. PDict [(''email'', PStr email)]) (attendees self))),
        (''conferenceData'',
           PDict [(''createRequest'',
                   PDict [(''requestId'', PStr now),
                          (''conferenceSolutionKey'', PDict [(''type'', PStr ''hangoutsMeet'')])])]),
        (''reminders'',
           PDict [(''useDefault'', PBool False),
                  (''overrides'',
                   PList [PDict [(''method'', PStr ''email''), (''minutes'', PNum (24 * 60))],
                          PDict [(''method'', PStr ''popup''), (''minutes'', PNum 15)]])])]"

text \<open>\<^verbatim>\<open>d.get(k)\<close>: the value, or \<^verbatim>\<open>None\<close> when the key is absent.\<close>

definition dict_get :: "(string \<times> pyval) list \<Rightarrow> string \<Rightarrow> pyval" where
  "dict_get d k = (case map_of d k of None \<Rightarrow> PNone | Some v \<Rightarrow> v)"

definition link_mark :: string where
  "link_mark = [CHR 0xF0, CHR 0x9F, CHR 0x94, CHR 0x97]"

definition calendar_mark :: string where
  "calendar_mark = [CHR 0xF0, CHR 0x9F, CHR 0x93, CHR 0x85]"

definition success_lines :: "('svc, 'dt) google \<Rightarrow> (string \<times> pyval) list \<Rightarrow> string list" where
  "success_lines G created_event =
     [''\<newline>'' @ check_mark @ '' Success! Meeting scheduled.'',
      link_mark @ '' Google Meet Link: '' @ py_str G (dict_get created_event ''hangoutLink''),
      calendar_mark @ '' View on Google Calendar: '' @ py_str G (dict_get created_event ''htmlLink'')]"

text \<open>
  The result is what the call raises or returns, the scheduler object after the call,
  and the lines printed. Only \<^verbatim>\<open>HttpError\<close> is handled; any other exception of the
  request leaves the method.
\<close>

definition schedule ::
  "('svc, 'dt) google \<Rightarrow> ('svc, 'dt) MeetingScheduler \<Rightarrow> string
     \<Rightarrow> (exn + pyval) \<times> ('svc, 'dt) MeetingScheduler \<times> string list" where
  "schedule G self now =
     (let event_body = build_event_body G self now
      in case events_insert G (service self) ''primary'' event_body True 1 of
           Inr created_event \<Rightarrow> (Inr (PDict created_event), self, success_lines G created_event)
         | Inl (HttpError m) \<Rightarrow> (Inr PNone, self, [cross_mark @ '' An error occurred: '' @ m])
         | Inl e \<Rightarrow> (Inl e, self, []))"


section \<open>Example inputs\<close>

definition example_doc :: "string \<Rightarrow> string \<Rightarrow> document" where
  "example_doc src content = \<lparr>page_content = content, metadata = [(''source'', src)]\<rparr>"

definition example_fitz :: fitz where
  "example_fitz p =
     (if p = ''cv.pdf'' then Inr [Inr ''Jane Doe\<newline>'', Inr ''Skills: Go'']
      else if p = ''torn.pdf''
      then Inr [Inr ''Page one'', Inl (OtherException ''bad xref''), Inr ''Page three'']
      else Inl (OSError ''no such file''))"

text \<open>
  A reply of the language model that is a JSON object with one of the two keys, and a
  stand-in for the parser: it reads this one reply as JSON does, and raises on every
  other reply.
\<close>

definition example_reply :: string where
  \<open>example_reply = ''{"work_ex_rating": 7}''\<close>

definition example_parser :: "string \<Rightarrow> exn + pyval" where
  "example_parser reply =
     (if reply = example_reply then Inr (PDict [(''work_ex_rating'', PNum 7)])
      else Inl (OutputParserException (''Invalid json output: '' @ reply)))"

text \<open>
  Four folders. \<^verbatim>\<open>resumes\<close> holds a resume and an entry \<^verbatim>\<open>scans.pdf\<close> that is not a
  regular file (a subdirectory, or a link to a file that is gone): the loader's
  constructor rejects such a path. \<^verbatim>\<open>mixed\<close> holds a text file, a resume and a damaged
  document; \<^verbatim>\<open>other\<close> holds no file with a supported extension; \<^verbatim>\<open>archive\<close> holds
  a text file and an entry \<^verbatim>\<open>scans.pdf\<close> that is not a regular file, so nothing in it
  can be loaded. The index returns the same chunk twice.
\<close>

definition example_libs :: "(unit, unit) libs" where
  "example_libs =
     \<lparr>listdir = (\<lambda>d. if d = ''resumes'' then Inr [''cv.pdf'', ''scans.pdf'']
                     else if d = ''mixed'' then Inr [''notes.txt'', ''cv.pdf'', ''torn.docx'']
                     else if d = ''other'' then Inr [''notes.txt'', ''photo.PDF'']
                     else if d = ''archive'' then Inr [''notes.txt'', ''scans.pdf'']
                     else Inl (OSError ''No such file or directory'')),
      PyPDFLoader = (\<lambda>p. if p = ''resumes/cv.pdf'' \<or> p = ''mixed/cv.pdf''
                           then Inr (Inr [example_doc p ''Jane Doe'', example_doc p ''Skills: Go''])
                         else Inl (ValueError (''File path '' @ p @ '' is not a valid file or url''))),
      Docx2txtLoader = (\<lambda>p. Inr (Inl (OtherException ''File is not a zip file''))),
      split_documents = (\<lambda>chunk_size chunk_overlap docs. Inr docs),
      HuggingFaceEmbeddings = (\<lambda>model_name. Inr ()),
      Chroma_from_documents = (\<lambda>splits embeddings persist_directory. Inr ()),
      retriever_invoke = (\<lambda>vs k q. Inr [example_doc ''resumes/cv.pdf'' ''Jane Doe'',
                                         example_doc ''resumes/cv.pdf'' ''Jane Doe'']),
      JsonOutputParser = example_parser\<rparr>"

text \<open>A pipeline object whose language model always answers \<open>reply\<close>.\<close>

definition example_rag :: "string \<Rightarrow> unit ResumeRAG" where
  "example_rag reply =
     \<lparr>folder_path = ''resumes'', llm = (\<lambda>prompt. Inr reply), vectorstore = (),
      prompt_template = get_prompt_template\<rparr>"

definition example_creds :: credentials where
  "example_creds = \<lparr>valid = True, expired = False, refresh_token = Some ''1//0g'', to_json = ''{}''\<rparr>"

text \<open>Google services that answer every request with the given outcome.\<close>

definition example_google :: "exn + (string \<times> pyval) list \<Rightarrow> (unit, string) google" where
  "example_google outcome =
     \<lparr>from_authorized_user_file = (\<lambda>fs path scopes. Inr example_creds),
      refresh = (\<lambda>c. Inr c),
      run_local_server = (\<lambda>fs path scopes. Inr example_creds),
      write_file = (\<lambda>fs path content. Inr (fs(path \<mapsto> content))),
      build = (\<lambda>name version c. Inr ()),
      encode_message = (\<lambda>recipient sender subject body. Inr ''VG86IGphbmVAZXhhbXBsZS5jb20=''),
      messages_send = (\<lambda>svc user body. outcome),
      events_insert = (\<lambda>svc calendar body notify version. outcome),
      isoformat = (\<lambda>t. t),
      py_str = (\<lambda>v. case v of PStr s \<Rightarrow> s | _ \<Rightarrow> ''None'')\<rparr>"

text \<open>The meeting of \<^verbatim>\<open>test.py\<close>.\<close>

definition example_scheduler :: "(unit, string) MeetingScheduler" where
  "example_scheduler =
     \<lparr>summary = ''Quarterly Business Review'',
      description = ''Review of Q3 performance and planning for Q4.'',
      start_time = ''2025-08-05T14:00:00+05:30'',
      end_time = ''2025-08-05T15:30:00+05:30'',
      attendees = [''b418024@iiit-bh.ac.in'', ''sunitamohanty.120@gmail.com''],
      creds = example_creds,
      service = ()\<rparr>"

section \<open>Properties of \<^verbatim>\<open>get_text_from_pdf\<close>\<close>

lemma read_pages_all: "read_pages (map Inr texts) acc = Inr (acc @ concat texts)"
  by (induction texts arbitrary: acc) simp_all

lemma read_pages_failure: "read_pages (map Inr texts @ Inl e # rest) acc = Inl e"
  by (induction texts arbitrary: acc) simp_all

text \<open>
  Claim C7. For every PDF path, \<^verbatim>\<open>get_text_from_pdf\<close> returns the concatenation of the
  texts of the pages in page order; when opening the file fails, or the extraction of a
  page fails (whatever the pages before it gave), it prints one line with the error
  and returns the empty string. The result type has no exception: nothing propagates.
\<close>

theorem get_text_from_pdf_outcomes:
  "(fitz_open pdf_path = Inr (map Inr texts) \<longrightarrow>
      get_text_from_pdf fitz_open pdf_path = (concat texts, [])) \<and>
   (fitz_open pdf_path = Inl e \<longrightarrow>
      get_text_from_pdf fitz_open pdf_path = ([], [pdf_error_line pdf_path e])) \<and>
   (fitz_open pdf_path = Inr (map Inr texts @ Inl e # rest) \<longrightarrow>
      get_text_from_pdf fitz_open pdf_path = ([], [pdf_error_line pdf_path e]))"
  by (simp add: get_text_from_pdf_def read_pages_all read_pages_failure)

text \<open>A file of two pages, a missing file, and a file whose second page cannot be read.\<close>

theorem get_text_from_pdf_outcomes_witness:
  "get_text_from_pdf example_fitz ''cv.pdf'' = (''Jane Doe\<newline>Skills: Go'', []) \<and>
   get_text_from_pdf example_fitz ''gone.pdf'' = ([], [''Error reading PDF gone.pdf: no such file'']) \<and>
   get_text_from_pdf example_fitz ''torn.pdf'' = ([], [''Error reading PDF torn.pdf: bad xref''])"
  using get_text_from_pdf_outcomes [of example_fitz "''cv.pdf''" "[''Jane Doe\<newline>'', ''Skills: Go'']"]
        get_text_from_pdf_outcomes [of example_fitz "''gone.pdf''" _ "OSError ''no such file''"]
        get_text_from_pdf_outcomes [of example_fitz "''torn.pdf''" "[''Page one'']"
          "OtherException ''bad xref''" "[Inr ''Page three'']"]
  by (simp add: example_fitz_def pdf_error_line_def)

section \<open>Properties of \<^verbatim>\<open>extract_email_from_text\<close>\<close>

lemma extract_email_example:
  "extract_email_from_text ''Contact: jane.doe+hr@example.co.uk for info'' =
     Some ''jane.doe+hr@example.co.uk''"
  by code_simp

lemma extract_email_no_match: "extract_email_from_text ''no email here'' = None"
  by code_simp

text \<open>
  Claim C4. The function is to return the first substring that matches the email
  pattern, whose last part is a top-level label of two to seven letters. The set the
  source writes for that label, \<^verbatim>\<open>[A-Z|a-z]\<close>, also holds the bar, so on a line where a
  bar follows the address the match runs over the bar: the code returns
  \<^verbatim>\<open>jane@example.com|\<close>, where the pattern of the specification gives
  \<^verbatim>\<open>jane@example.com\<close>.
\<close>

theorem extract_email_keeps_bar:
  "extract_email_from_text ''jane@example.com|555-0100'' = Some ''jane@example.com|'' \<and>
   re_search spec_email_pattern ''jane@example.com|555-0100'' = Some ''jane@example.com''"
  by code_simp

section \<open>Properties of \<^verbatim>\<open>_load_documents_from_folder\<close>\<close>

text \<open>
  When every loader is constructed, the loop reaches the end of the directory: the
  result holds the documents of every entry that loaded, in directory order, and one
  line is printed for every entry skipped.
\<close>

lemma load_files_recovers:
  "list_all (constructed L folder) names \<Longrightarrow>
   load_files L folder names documents tr =
     (Inr (documents @ concat (map (entry_documents L folder) names)),
      tr @ map Print (concat (map (entry_lines L folder) names)))"
proof (induction names arbitrary: documents tr)
  case Nil
  then show ?case by simp
next
  case (Cons n ns)
  then show ?case
    by (auto simp: constructed_def entry_documents_def entry_lines_def split: option.splits sum.splits)
qed

lemma load_example_mixed:
  "load_documents_from_folder example_libs ''mixed'' [] =
     (Inr [example_doc ''mixed/cv.pdf'' ''Jane Doe'', example_doc ''mixed/cv.pdf'' ''Skills: Go''],
      [Print ''Unsupported file type skipped: notes.txt'',
       Print ''Error loading file torn.docx: File is not a zip file''])"
  by (simp add: load_documents_from_folder_def example_libs_def make_loader_def endswith_def
      path_join_def unsupported_line_def load_error_line_def)

text \<open>The documents returned do not depend on what was printed before.\<close>

lemma load_files_fst_trace:
  "fst (load_files L folder names documents tr) = fst (load_files L folder names documents tr')"
proof (induction names arbitrary: documents tr tr')
  case Nil
  then show ?case by simp
next
  case (Cons n ns)
  show ?case
  proof (cases "make_loader L n (path_join folder n)")
    case None
    then show ?thesis using Cons.IH by simp
  next
    case (Some r)
    then show ?thesis using Cons.IH by (auto split: sum.splits)
  qed
qed

text \<open>Loading adds printed lines to the trace and nothing else.\<close>

lemma load_files_prints:
  "\<exists>lines. snd (load_files L folder names documents tr) = tr @ map Print lines"
proof (induction names arbitrary: documents tr)
  case Nil
  show ?case by (rule exI [of _ "[]"]) simp
next
  case (Cons n ns)
  have step: "\<exists>lines. snd (load_files L folder ns d (tr @ [Print x])) = tr @ map Print lines" for d x
  proof -
    from Cons.IH [of d "tr @ [Print x]"] obtain ls where
      "snd (load_files L folder ns d (tr @ [Print x])) = (tr @ [Print x]) @ map Print ls" by blast
    then have "snd (load_files L folder ns d (tr @ [Print x])) = tr @ map Print (x # ls)" by simp
    then show ?thesis by blast
  qed
  show ?case
  proof (cases "make_loader L n (path_join folder n)")
    case None
    then show ?thesis using step by simp
  next
    case (Some r)
    show ?thesis
    proof (cases r)
      case (Inl e)
      with Some show ?thesis by (intro exI [of _ "[]"]) simp
    next
      case (Inr ld)
      with Some show ?thesis using step Cons.IH by (cases ld) simp_all
    qed
  qed
qed

lemma load_documents_fst_trace:
  "fst (load_documents_from_folder L folder tr) = fst (load_documents_from_folder L folder tr')"
  using load_files_fst_trace [of L folder _ "[]" tr tr']
  by (simp add: load_documents_from_folder_def split: sum.splits)

lemma load_documents_prints:
  "\<exists>lines. snd (load_documents_from_folder L folder tr) = tr @ map Print lines"
proof (cases "listdir L folder")
  case (Inl e)
  then show ?thesis by (intro exI [of _ "[]"]) (simp add: load_documents_from_folder_def)
next
  case (Inr names)
  then show ?thesis using load_files_prints [of L folder names "[]" tr]
    by (simp add: load_documents_from_folder_def)
qed

lemma unsupported_only:
  "list_all (\<lambda>n. \<not> endswith n ''.pdf'' \<and> \<not> endswith n ''.docx'') names \<Longrightarrow>
   load_files L folder names documents tr =
     (Inr documents, tr @ map (\<lambda>n. Print (unsupported_line n)) names)"
  by (induction names arbitrary: tr) (simp_all add: make_loader_def)

text \<open>
  Claim C5. A single bad entry is not to abort the load. The source catches the
  exceptions of \<^verbatim>\<open>loader.load()\<close>, but it constructs the loader before the \<^verbatim>\<open>try\<close>
  block: when the constructor raises, as it does for an entry \<^verbatim>\<open>scans.pdf\<close> that is
  not a regular file, the exception leaves the function, and the documents already
  loaded from \<^verbatim>\<open>cv.pdf\<close> are lost with it.
\<close>

theorem load_aborts_on_constructor_error:
  "load_documents_from_folder example_libs ''resumes'' [] =
     (Inl (ValueError ''File path resumes/scans.pdf is not a valid file or url''), [])"
  by (simp add: load_documents_from_folder_def example_libs_def make_loader_def endswith_def
      path_join_def)

section \<open>Properties of \<^verbatim>\<open>__init__\<close>\<close>

lemma str_nat_zero: "str_nat 0 = ''0''"
  by (simp add: str_nat.simps digit_char_def)

text \<open>
  When loading the folder returns the empty list, constructing the pipeline fails
  with the error \<^verbatim>\<open>No documents found in the specified folder.\<close>, and all it did
  before was print: no embedding model is created and no vector index is built. In
  particular, for a folder in which no entry ends in \<^verbatim>\<open>.pdf\<close> or \<^verbatim>\<open>.docx\<close> the trace
  is the line announcing the load, one line for each entry skipped, and the count.
\<close>

lemma init_fails_on_empty_load:
  "(fst (load_documents_from_folder L folder tr') = Inr [] \<longrightarrow>
      fst (ResumeRAG_init L folder model tr) = Inl no_documents \<and>
      (\<exists>lines. snd (ResumeRAG_init L folder model tr) = tr @ map Print lines)) \<and>
   (listdir L folder = Inr names \<and>
    list_all (\<lambda>n. \<not> endswith n ''.pdf'' \<and> \<not> endswith n ''.docx'') names \<longrightarrow>
      ResumeRAG_init L folder model tr =
        (Inl no_documents,
         tr @ Print (''Loading documents from: '' @ folder)
            # map (\<lambda>n. Print (unsupported_line n)) names @ [Print ''Loaded 0 documents.'']))"
proof (intro conjI impI)
  let ?tr0 = "tr @ [Print (''Loading documents from: '' @ folder)]"
  assume "fst (load_documents_from_folder L folder tr') = Inr []"
  then have empty: "fst (load_documents_from_folder L folder ?tr0) = Inr []"
    using load_documents_fst_trace [of L folder ?tr0 tr'] by simp
  obtain ls where ls: "snd (load_documents_from_folder L folder ?tr0) = ?tr0 @ map Print ls"
    using load_documents_prints by blast
  from empty ls have run: "load_documents_from_folder L folder ?tr0 = (Inr [], ?tr0 @ map Print ls)"
    by (metis prod.collapse)
  then show "fst (ResumeRAG_init L folder model tr) = Inl no_documents"
    by (simp add: ResumeRAG_init_def load_and_process_documents_def)
  have "snd (ResumeRAG_init L folder model tr) =
          tr @ map Print ((''Loading documents from: '' @ folder) # ls
                            @ [''Loaded '' @ str_nat 0 @ '' documents.''])"
    using run by (simp add: ResumeRAG_init_def load_and_process_documents_def)
  then show "\<exists>lines. snd (ResumeRAG_init L folder model tr) = tr @ map Print lines"
    by blast
next
  assume h: "listdir L folder = Inr names \<and>
    list_all (\<lambda>n. \<not> endswith n ''.pdf'' \<and> \<not> endswith n ''.docx'') names"
  show "ResumeRAG_init L folder model tr =
        (Inl no_documents,
         tr @ Print (''Loading documents from: '' @ folder)
            # map (\<lambda>n. Print (unsupported_line n)) names @ [Print ''Loaded 0 documents.''])"
    using h unsupported_only [of names L folder "[]"]
    by (simp add: ResumeRAG_init_def load_and_process_documents_def load_documents_from_folder_def
        str_nat_zero)
qed

text \<open>A folder with a text file and a file whose extension is in capitals.\<close>

lemma init_example_other:
  "ResumeRAG_init example_libs ''other'' (\<lambda>prompt. Inr ''{}'') [] =
     (Inl (ValueError ''No documents found in the specified folder.''),
      [Print ''Loading documents from: other'',
       Print ''Unsupported file type skipped: notes.txt'',
       Print ''Unsupported file type skipped: photo.PDF'',
       Print ''Loaded 0 documents.''])"
proof -
  have names: "listdir example_libs ''other'' = Inr [''notes.txt'', ''photo.PDF'']"
    by (simp add: example_libs_def)
  have unsupported:
    "list_all (\<lambda>n. \<not> endswith n ''.pdf'' \<and> \<not> endswith n ''.docx'') [''notes.txt'', ''photo.PDF'']"
    by (simp add: endswith_def)
  have empty: "fst (load_documents_from_folder example_libs ''other'' []) = Inr []"
    using names unsupported
      unsupported_only [of "[''notes.txt'', ''photo.PDF'']" example_libs "''other''" "[]" "[]"]
    by (simp add: load_documents_from_folder_def)
  show ?thesis
    using init_fails_on_empty_load [of example_libs "''other''" "[]" "\<lambda>prompt. Inr ''{}''" "[]"
        "[''notes.txt'', ''photo.PDF'']"]
      names unsupported empty
    by (simp add: no_documents_def unsupported_line_def)
qed

text \<open>
  The same holds for every folder in which each loader is constructed and no entry
  gives a document, whether the entry is skipped, fails to load or loads nothing.
\<close>

lemma init_fails_when_nothing_loads:
  assumes "listdir L folder = Inr names"
      and "list_all (constructed L folder) names"
      and "list_all (\<lambda>n. entry_documents L folder n = []) names"
  shows "ResumeRAG_init L folder model tr =
           (Inl no_documents,
            tr @ Print (''Loading documents from: '' @ folder)
               # map Print (concat (map (entry_lines L folder) names))
               @ [Print ''Loaded 0 documents.''])"
proof -
  have none: "concat (map (entry_documents L folder) names) = []"
    using assms(3) by (induction names) simp_all
  have "load_files L folder names [] (tr @ [Print (''Loading documents from: '' @ folder)]) =
          (Inr [], (tr @ [Print (''Loading documents from: '' @ folder)])
                     @ map Print (concat (map (entry_lines L folder) names)))"
    using load_files_recovers [OF assms(2), of "[]"] by (simp only: none append_Nil)
  then show ?thesis
    using assms(1)
    by (simp add: ResumeRAG_init_def load_and_process_documents_def load_documents_from_folder_def
        str_nat_zero)
qed

text \<open>
  Claim C2. A folder with no loadable document is to make the construction fail with
  the error \<^verbatim>\<open>No documents found in the specified folder.\<close> The folder
  \<^verbatim>\<open>archive\<close> holds a text file and an entry \<^verbatim>\<open>scans.pdf\<close> that is not a regular
  file, so no document can be loaded from it; but the loader for \<^verbatim>\<open>scans.pdf\<close> is
  constructed outside the \<^verbatim>\<open>try\<close> block, its exception leaves the loading function
  and \<^verbatim>\<open>__init__\<close> before the emptiness check is reached, and the construction
  fails with that exception instead.
\<close>

theorem init_fails_with_constructor_error:
  "ResumeRAG_init example_libs ''archive'' (\<lambda>prompt. Inr ''{}'') [] =
     (Inl (ValueError ''File path archive/scans.pdf is not a valid file or url''),
      [Print ''Loading documents from: archive'',
       Print ''Unsupported file type skipped: notes.txt'']) \<and>
   ValueError ''File path archive/scans.pdf is not a valid file or url'' \<noteq> no_documents"
  by (simp add: ResumeRAG_init_def load_and_process_documents_def load_documents_from_folder_def
      example_libs_def make_loader_def endswith_def path_join_def unsupported_line_def
      no_documents_def)

section \<open>Properties of \<^verbatim>\<open>rate_candidate\<close>\<close>

lemma join_cons: "join sep (x # xs) = x @ concat (map (\<lambda>y. sep @ y) xs)"
  by (induction xs arbitrary: x) simp_all

lemma context_text_blank_lines:
  "context_text docs =
     concat (case docs of [] \<Rightarrow> []
             | d # ds \<Rightarrow> page_content d # map (\<lambda>x. ''\<newline>\<newline>'' @ page_content x) ds)"
  by (cases docs) (simp_all add: context_text_def join_cons comp_def)

text \<open>The three variables of the template are the three inputs of the chain.\<close>

lemma format_prompt_defined:
  "\<exists>prompt. format_template get_prompt_template (chain_inputs c y skills) = Inr prompt"
  by (simp add: get_prompt_template_def chain_inputs_def)

lemma rate_candidate_retrieved:
  assumes "retriever_invoke L (vectorstore self) 5 (retriever_query y skills) = Inr docs"
  shows "rate_candidate L self y skills tr =
           chain_invoke L self (chain_inputs (context_text docs) y skills)
             (tr @ [Print (retrieving_line (retriever_query y skills)),
                    RetrieverInvoke 5 (retriever_query y skills),
                    Print ''Invoking LLM to generate ratings...''])"
  using assms by (simp add: rate_candidate_def Let_def)

lemma chain_invoke_parsed:
  assumes "format_template (prompt_template self) inputs = Inr prompt"
      and "llm self prompt = Inr reply"
  shows "chain_invoke L self inputs tr = (JsonOutputParser L reply, tr @ [LLMInvoke prompt])"
  using assms by (simp add: chain_invoke_def)

lemma rate_candidate_trace:
  assumes "retriever_invoke L (vectorstore self) 5 (retriever_query y skills) = Inr docs"
      and "format_template (prompt_template self) (chain_inputs (context_text docs) y skills) = Inr prompt"
  shows "snd (rate_candidate L self y skills tr) =
           tr @ [Print (retrieving_line (retriever_query y skills)),
                 RetrieverInvoke 5 (retriever_query y skills),
                 Print ''Invoking LLM to generate ratings...'',
                 LLMInvoke prompt]"
  using assms by (simp add: rate_candidate_def chain_invoke_def Let_def split: sum.splits)

text \<open>
  What \<^verbatim>\<open>rate_candidate\<close> returns is the outcome of the parser on the model's reply,
  unchanged: the parser's exception when it raises, the parsed value when it does not.
\<close>

lemma rate_candidate_returns_parser_outcome:
  assumes "retriever_invoke L (vectorstore self) 5 (retriever_query y skills) = Inr docs"
      and "format_template (prompt_template self) (chain_inputs (context_text docs) y skills) = Inr prompt"
      and "llm self prompt = Inr reply"
  shows "fst (rate_candidate L self y skills tr) = JsonOutputParser L reply"
  using rate_candidate_retrieved [OF assms(1), of tr]
    chain_invoke_parsed [where L = L, OF assms(2) assms(3)]
  by simp

lemma example_query:
  "retriever_query 5 [''Python'', ''Go''] =
     ''A candidate with at least 5 years of work experience and expertise in Python, Go.''"
  by (simp add: retriever_query_def str_int_def str_nat.simps digit_char_def)

lemma format_prompt_filled:
  "format_template get_prompt_template (chain_inputs c y skills) =
     Inr (filled_prompt c (str_int y) (join '', '' skills))"
  by (simp add: get_prompt_template_def chain_inputs_def filled_prompt_def)

text \<open>
  Claim C6. For every rating request the retriever is asked for five chunks, and the
  language model is invoked with the text of the template in which the context is the
  texts of the retrieved chunks in the order returned, a blank line between two of
  them, every text in full (a chunk returned twice stands twice).
\<close>

theorem rate_candidate_context:
  assumes "prompt_template self = get_prompt_template"
      and "retriever_invoke L (vectorstore self) 5 (retriever_query y skills) = Inr docs"
  shows "snd (rate_candidate L self y skills tr) =
           tr @ [Print (retrieving_line (retriever_query y skills)),
                 RetrieverInvoke 5 (retriever_query y skills),
                 Print ''Invoking LLM to generate ratings...'',
                 LLMInvoke
                   (filled_prompt
                      (concat (case docs of [] \<Rightarrow> []
                               | d # ds \<Rightarrow>
                                   page_content d # map (\<lambda>x. ''\<newline>\<newline>'' @ page_content x) ds))
                      (str_int y) (join '', '' skills))]"
proof -
  have "format_template (prompt_template self) (chain_inputs (context_text docs) y skills) =
          Inr (filled_prompt (context_text docs) (str_int y) (join '', '' skills))"
    using assms(1) by (simp add: format_prompt_filled)
  from rate_candidate_trace [OF assms(2) this] show ?thesis
    by (simp add: context_text_blank_lines)
qed

text \<open>
  The index returns the chunk \<^verbatim>\<open>Jane Doe\<close> twice; the context in the prompt holds it
  twice, a blank line between, after the line of dashes that follows the heading and
  before the next line of dashes.
\<close>

theorem rate_candidate_context_witness:
  \<open>\<exists>rest.
     snd (rate_candidate example_libs (example_rag example_reply) 5 [''Python'', ''Go''] []) =
       [Print (retrieving_line ''A candidate with at least 5 years of work experience and expertise in Python, Go.''),
        RetrieverInvoke 5 ''A candidate with at least 5 years of work experience and expertise in Python, Go.'',
        Print ''Invoking LLM to generate ratings...'',
        LLMInvoke
          (''\<newline>''
           @ ''            You are an expert HR screening assistant. Your task is to analyze the provided resume context and generate two numerical ratings based on specific criteria.\<newline>''
           @ ''\<newline>''
           @ ''            **Context from Resume:**\<newline>''
           @ ''            ---\<newline>''
           @ ''            Jane Doe\<newline>\<newline>Jane Doe\<newline>''
           @ ''            ---\<newline>''
           @ ''\<newline>''
           @ ''            **Evaluation Criteria:**\<newline>''
           @ ''\<newline>''
           @ ''            1.  **Work Experience:** The ideal candidate has at least **5 years** of total work experience.\<newline>''
           @ ''            2.  **Skills:** The ideal candidate has expertise in the following technologies: **Python, Go**.\<newline>''
           @ rest)]\<close>
proof -
  have five: "str_int 5 = ''5''"
    by (simp add: str_int_def str_nat.simps digit_char_def)
  show ?thesis
    using rate_candidate_context [of "example_rag example_reply" example_libs 5 "[''Python'', ''Go'']"
        "[example_doc ''resumes/cv.pdf'' ''Jane Doe'', example_doc ''resumes/cv.pdf'' ''Jane Doe'']" "[]"]
    by (simp add: example_query example_rag_def example_libs_def example_doc_def filled_prompt_def five)
qed

text \<open>A reply that is not JSON: the parser's exception reaches the caller.\<close>

lemma rate_candidate_malformed_reply:
  "fst (rate_candidate example_libs (example_rag ''Sorry, I cannot rate this.'') 5 [''Python'', ''Go''] []) =
     Inl (OutputParserException ''Invalid json output: Sorry, I cannot rate this.'')"
proof -
  let ?docs = "[example_doc ''resumes/cv.pdf'' ''Jane Doe'', example_doc ''resumes/cv.pdf'' ''Jane Doe'']"
  obtain prompt where
    p: "format_template get_prompt_template (chain_inputs (context_text ?docs) 5 [''Python'', ''Go'']) = Inr prompt"
    using format_prompt_defined by blast
  have r: "retriever_invoke example_libs (vectorstore (example_rag ''Sorry, I cannot rate this.'')) 5
             (retriever_query 5 [''Python'', ''Go'']) = Inr ?docs"
    by (simp add: example_libs_def)
  have t: "format_template (prompt_template (example_rag ''Sorry, I cannot rate this.''))
             (chain_inputs (context_text ?docs) 5 [''Python'', ''Go'']) = Inr prompt"
    using p by (simp add: example_rag_def)
  have l: "llm (example_rag ''Sorry, I cannot rate this.'') prompt = Inr ''Sorry, I cannot rate this.''"
    by (simp add: example_rag_def)
  show ?thesis
    using rate_candidate_returns_parser_outcome [OF r t l, of "[]"]
    by (simp add: example_libs_def example_parser_def example_reply_def)
qed

text \<open>
  Claim C1. A reply that lacks one of the two keys is to raise a parse error, never
  to come back as a partly filled result. The docstring of the source promises a
  dictionary with both keys, but the source returns what the parser yields without
  looking at it: for the reply \<^verbatim>\<open>{"work_ex_rating": 7}\<close> the caller receives the
  dictionary with that single key, and no exception.
\<close>

theorem rate_candidate_partial_reply:
  "fst (rate_candidate example_libs (example_rag example_reply) 5 [''Python'', ''Go''] []) =
     Inr (PDict [(''work_ex_rating'', PNum 7)]) \<and>
   map_of [(''work_ex_rating'', PNum 7)] ''skills_rating'' = None"
proof -
  let ?docs = "[example_doc ''resumes/cv.pdf'' ''Jane Doe'', example_doc ''resumes/cv.pdf'' ''Jane Doe'']"
  let ?inputs = "chain_inputs (context_text ?docs) 5 [''Python'', ''Go'']"
  obtain prompt where
    p: "format_template get_prompt_template ?inputs = Inr prompt"
    using format_prompt_defined by blast
  have r: "retriever_invoke example_libs (vectorstore (example_rag example_reply)) 5
             (retriever_query 5 [''Python'', ''Go'']) = Inr ?docs"
    by (simp add: example_libs_def)
  have t: "format_template (prompt_template (example_rag example_reply)) ?inputs = Inr prompt"
    using p by (simp add: example_rag_def)
  have l: "llm (example_rag example_reply) prompt = Inr example_reply"
    by (simp add: example_rag_def)
  have "fst (rate_candidate example_libs (example_rag example_reply) 5 [''Python'', ''Go''] []) =
          JsonOutputParser example_libs example_reply"
    using rate_candidate_retrieved [OF r, of "[]"]
      chain_invoke_parsed [where L = example_libs, OF t l]
    by simp
  then show ?thesis
    by (simp add: example_libs_def example_parser_def)
qed

section \<open>Properties of \<^verbatim>\<open>send_email\<close>\<close>

lemma example_attempt:
  "fst (send_attempt (example_google outcome) recipient sender subject body Map.empty) =
     (case outcome of Inl e \<Rightarrow> Inl e | Inr reply \<Rightarrow> getitem reply ''id'')"
  by (simp add: send_attempt_def get_credentials_def renew_credentials_def store_token_def
      example_google_def split: sum.splits)

text \<open>
  Claim C9, as stated, fails: when the request succeeds with the identifier
  \<^verbatim>\<open>18f3a9\<close> the call returns \<^verbatim>\<open>None\<close>, not the identifier, and when the request
  fails with an \<^verbatim>\<open>HttpError\<close> the call returns \<^verbatim>\<open>None\<close> too and raises nothing.
\<close>

theorem send_email_swallows_counterexample:
  "fst (send_email (example_google (Inr [(''id'', PStr ''18f3a9''), (''labelIds'', PList [PStr ''SENT''])]))
          ''jane@example.com'' ''hr@example.com'' ''Interview'' ''Hello Jane'' Map.empty) = Inr PNone \<and>
   fst (send_email (example_google (Inl (HttpError ''403 Forbidden'')))
          ''jane@example.com'' ''hr@example.com'' ''Interview'' ''Hello Jane'' Map.empty) = Inr PNone"
  by (simp add: send_email_def split: prod.splits)

text \<open>
  Claim C9, amended. For every invocation \<^verbatim>\<open>send_email\<close> returns \<^verbatim>\<open>None\<close> and
  raises nothing. On success it prints one line that holds the provider's message
  identifier; on an \<^verbatim>\<open>HttpError\<close> it prints one line with that error; on any other
  exception of the attempt it prints one line that names it as unexpected.
\<close>

theorem send_email_returns_none:
  "fst (send_email G recipient sender subject body fs) = Inr PNone \<and>
   (fst (send_attempt G recipient sender subject body fs) = Inr ident \<longrightarrow>
      snd (snd (send_email G recipient sender subject body fs)) =
        [check_mark @ '' Email sent successfully! Message ID: '' @ py_str G ident]) \<and>
   (fst (send_attempt G recipient sender subject body fs) = Inl (HttpError m) \<longrightarrow>
      snd (snd (send_email G recipient sender subject body fs)) =
        [cross_mark @ '' An error occurred: '' @ m]) \<and>
   (fst (send_attempt G recipient sender subject body fs) = Inl e \<and> (\<forall>m. e \<noteq> HttpError m) \<longrightarrow>
      snd (snd (send_email G recipient sender subject body fs)) =
        [''An unexpected error occurred: '' @ str_exn e])"
  by (cases "send_attempt G recipient sender subject body fs"; cases e)
     (auto simp: send_email_def email_line_def)

text \<open>A request that succeeds, one that fails, and a reply without an identifier.\<close>

theorem send_email_returns_none_witness:
  "snd (snd (send_email (example_google (Inr [(''id'', PStr ''18f3a9''), (''labelIds'', PList [PStr ''SENT''])]))
          ''jane@example.com'' ''hr@example.com'' ''Interview'' ''Hello Jane'' Map.empty)) =
     [check_mark @ '' Email sent successfully! Message ID: 18f3a9''] \<and>
   snd (snd (send_email (example_google (Inl (HttpError ''403 Forbidden'')))
          ''jane@example.com'' ''hr@example.com'' ''Interview'' ''Hello Jane'' Map.empty)) =
     [cross_mark @ '' An error occurred: 403 Forbidden''] \<and>
   snd (snd (send_email (example_google (Inr [(''labelIds'', PList [PStr ''SENT''])]))
          ''jane@example.com'' ''hr@example.com'' ''Interview'' ''Hello Jane'' Map.empty)) =
     [''An unexpected error occurred: '' @ [CHR 0x27] @ ''id'' @ [CHR 0x27]]"
  using
    send_email_returns_none [of "example_google (Inr [(''id'', PStr ''18f3a9''), (''labelIds'', PList [PStr ''SENT''])])"
      "''jane@example.com''" "''hr@example.com''" "''Interview''" "''Hello Jane''" Map.empty "PStr ''18f3a9''"]
    send_email_returns_none [of "example_google (Inl (HttpError ''403 Forbidden''))"
      "''jane@example.com''" "''hr@example.com''" "''Interview''" "''Hello Jane''" Map.empty _ "''403 Forbidden''"]
    send_email_returns_none [of "example_google (Inr [(''labelIds'', PList [PStr ''SENT''])])"
      "''jane@example.com''" "''hr@example.com''" "''Interview''" "''Hello Jane''" Map.empty _ _
      "KeyError ([CHR 0x27] @ ''id'' @ [CHR 0x27])"]
  by (simp add: example_attempt getitem_def) (simp add: example_google_def)

section \<open>Properties of \<^verbatim>\<open>MeetingScheduler.schedule\<close>\<close>

text \<open>
  Claim C10. When the calendar request succeeds, \<^verbatim>\<open>schedule\<close> returns the created
  event; when the request fails with an \<^verbatim>\<open>HttpError\<close> it prints the error and returns
  \<^verbatim>\<open>None\<close>, raising nothing. In both cases the scheduler object after the call is the
  one before it.
\<close>

theorem schedule_outcomes:
  "(events_insert G (service self) ''primary'' (build_event_body G self now) True 1 = Inr created_event \<longrightarrow>
      schedule G self now = (Inr (PDict created_event), self, success_lines G created_event)) \<and>
   (events_insert G (service self) ''primary'' (build_event_body G self now) True 1 = Inl (HttpError m) \<longrightarrow>
      schedule G self now = (Inr PNone, self, [cross_mark @ '' An error occurred: '' @ m]))"
  by (simp add: schedule_def)

theorem schedule_outcomes_witness:
  "schedule (example_google (Inr [(''hangoutLink'', PStr ''https://meet.google.com/abc-defg-hij''),
                                  (''htmlLink'', PStr ''https://www.google.com/calendar/event?eid=X'')]))
      example_scheduler ''1754382600.5'' =
     (Inr (PDict [(''hangoutLink'', PStr ''https://meet.google.com/abc-defg-hij''),
                  (''htmlLink'', PStr ''https://www.google.com/calendar/event?eid=X'')]),
      example_scheduler,
      [''\<newline>'' @ check_mark @ '' Success! Meeting scheduled.'',
       link_mark @ '' Google Meet Link: https://meet.google.com/abc-defg-hij'',
       calendar_mark @ '' View on Google Calendar: https://www.google.com/calendar/event?eid=X'']) \<and>
   schedule (example_google (Inl (HttpError ''404 Not Found''))) example_scheduler ''1754382600.5'' =
     (Inr PNone, example_scheduler, [cross_mark @ '' An error occurred: 404 Not Found''])"
  using
    schedule_outcomes [of "example_google (Inr [(''hangoutLink'', PStr ''https://meet.google.com/abc-defg-hij''),
                                  (''htmlLink'', PStr ''https://www.google.com/calendar/event?eid=X'')])"
      example_scheduler "''1754382600.5''"
      "[(''hangoutLink'', PStr ''https://meet.google.com/abc-defg-hij''),
        (''htmlLink'', PStr ''https://www.google.com/calendar/event?eid=X'')]"]
    schedule_outcomes [of "example_google (Inl (HttpError ''404 Not Found''))"
      example_scheduler "''1754382600.5''" _ "''404 Not Found''"]
  by (simp add: example_google_def success_lines_def dict_get_def)

text \<open>An exception of the request that is not an \<^verbatim>\<open>HttpError\<close> leaves the method.\<close>

lemma schedule_other_exception:
  "events_insert G (service self) ''primary'' (build_event_body G self now) True 1 = Inl e \<Longrightarrow>
   \<forall>m. e \<noteq> HttpError m \<Longrightarrow> schedule G self now = (Inl e, self, [])"
  by (cases e) (simp_all add: schedule_def)

section \<open>Properties of the text splitter\<close>

lemma strip_length: "length (strip s) \<le> length s"
proof -
  have "length (dropWhile is_space (rev (dropWhile is_space s))) \<le> length (rev (dropWhile is_space s))"
    by (rule length_dropWhile_le)
  also have "\<dots> \<le> length s"
    by (simp add: length_dropWhile_le)
  finally show ?thesis by (simp add: strip_def)
qed

lemma join_docs_bound: "x \<in> set (join_docs cur) \<Longrightarrow> length x \<le> length (concat cur)"
  using strip_length [of "concat cur"] by (auto simp: join_docs_def Let_def split: if_splits)

lemma pop_overlap_inv:
  "pop_overlap C O' l cur tot = (kept, tot') \<Longrightarrow> length (concat cur) = tot \<Longrightarrow>
   length (concat kept) = tot' \<and> (tot' + l \<le> C \<or> tot' = 0)"
proof (induction C O' l cur tot rule: pop_overlap.induct)
  case (1 C O' l tot)
  then show ?case by auto
next
  case (2 C O' l d ds tot)
  show ?case
  proof (cases "tot > O' \<or> (tot + l > C \<and> tot > 0)")
    case True
    then have "pop_overlap C O' l ds (tot - length d) = (kept, tot')"
      using "2.prems"(1) by simp
    moreover have "length (concat ds) = tot - length d"
      using "2.prems"(2) by auto
    ultimately show ?thesis using "2.IH" [OF True] by blast
  next
    case False
    then have "kept = d # ds" "tot' = tot" using "2.prems"(1) by (auto split: if_splits)
    with False "2.prems"(2) show ?thesis by auto
  qed
qed

lemma merge_loop_bound:
  "\<forall>d \<in> set ds. length d \<le> C \<Longrightarrow> length (concat cur) = tot \<Longrightarrow> tot \<le> C \<Longrightarrow>
   \<forall>x \<in> set docs. length x \<le> C \<Longrightarrow>
   \<forall>x \<in> set (merge_loop C O' ds cur tot docs). length x \<le> C"
proof (induction ds arbitrary: cur tot docs)
  case Nil
  then show ?case using join_docs_bound [of _ cur] by fastforce
next
  case (Cons d ds)
  have d: "length d \<le> C" and rest: "\<forall>d \<in> set ds. length d \<le> C"
    using Cons.prems(1) by simp_all
  show ?case
  proof (cases "tot + length d > C \<and> cur \<noteq> []")
    case True
    obtain kept tot' where pop: "pop_overlap C O' (length d) cur tot = (kept, tot')"
      by (cases "pop_overlap C O' (length d) cur tot")
    from pop_overlap_inv [OF pop Cons.prems(2)]
    have inv: "length (concat kept) = tot'" "tot' + length d \<le> C \<or> tot' = 0" by blast+
    have a: "length (concat (kept @ [d])) = tot' + length d" using inv(1) by simp
    have b: "tot' + length d \<le> C" using inv(2) d by auto
    have c: "\<forall>x \<in> set (docs @ join_docs cur). length x \<le> C"
      using Cons.prems(2,3,4) join_docs_bound [of _ cur] by fastforce
    from Cons.IH [OF rest a b c] True pop show ?thesis by simp
  next
    case False
    have a: "length (concat (cur @ [d])) = tot + length d" using Cons.prems(2) by simp
    have b: "tot + length d \<le> C"
    proof (cases "cur = []")
      case True
      then show ?thesis using Cons.prems(2) d by auto
    next
      case nonempty: False
      with False show ?thesis by simp
    qed
    from Cons.IH [OF rest a b Cons.prems(4)] False show ?thesis by auto
  qed
qed

lemma flush_bound:
  "\<forall>d \<in> set good. length d \<le> C \<Longrightarrow> \<forall>x \<in> set (flush C O' good). length x \<le> C"
  using merge_loop_bound [where ds = good and C = C and tot = 0 and cur = "[]" and docs = "[]" and O' = O']
  by (simp add: flush_def merge_splits_def)

lemma split_loop_bound:
  "\<forall>s \<in> set pieces. \<forall>x \<in> set (further s). length x \<le> C \<Longrightarrow>
   \<forall>d \<in> set good. length d \<le> C \<Longrightarrow> \<forall>x \<in> set final. length x \<le> C \<Longrightarrow>
   \<forall>x \<in> set (split_loop C O' further pieces good final). length x \<le> C"
proof (induction pieces arbitrary: good final)
  case Nil
  then show ?case using flush_bound [of good C O'] by auto
next
  case (Cons s ss)
  have rest: "\<forall>s \<in> set ss. \<forall>x \<in> set (further s). length x \<le> C"
    using Cons.prems(1) by simp
  show ?case
  proof (cases "length s < C")
    case True
    have "\<forall>d \<in> set (good @ [s]). length d \<le> C" using Cons.prems(2) True by auto
    from Cons.IH [OF rest this Cons.prems(3)] True show ?thesis by simp
  next
    case False
    have "\<forall>x \<in> set (final @ flush C O' good @ further s). length x \<le> C"
      using Cons.prems flush_bound [of good C O'] by auto
    from Cons.IH [OF rest _ this, of "[]"] False show ?thesis by simp
  qed
qed

lemma split_text_rec_bound:
  "0 < C \<Longrightarrow> seps \<noteq> [] \<Longrightarrow> last seps = [] \<Longrightarrow>
   \<forall>x \<in> set (split_text_rec C O' seps body). length x \<le> C"
proof (induction seps arbitrary: body)
  case Nil
  then show ?case by simp
next
  case (Cons sep seps)
  show ?case
  proof (cases "sep = []")
    case True
    have "\<forall>s \<in> set (split_pieces [] body). \<forall>x \<in> set ((\<lambda>s. [s]) s). length x \<le> C"
      using Cons.prems(1) by (auto simp: split_pieces_def)
    from split_loop_bound [OF this, of "[]" "[]" O'] True show ?thesis by simp
  next
    case False
    with Cons.prems have seps: "seps \<noteq> []" "last seps = []" by (auto split: if_splits)
    have IH: "\<forall>x \<in> set (split_text_rec C O' seps t). length x \<le> C" for t
      using Cons.IH [OF Cons.prems(1) seps] .
    show ?thesis
    proof (cases "occurs sep body")
      case True
      have "\<forall>s \<in> set (split_pieces sep body). \<forall>x \<in> set (split_text_rec C O' seps s). length x \<le> C"
        using IH by simp
      from split_loop_bound [OF this, of "[]" "[]" O'] True False seps show ?thesis by simp
    next
      case False
      with \<open>sep \<noteq> []\<close> IH show ?thesis by simp
    qed
  qed
qed

lemma split_text_bound: "0 < C \<Longrightarrow> x \<in> set (split_text C O' body) \<Longrightarrow> length x \<le> C"
  using split_text_rec_bound [of C separators O' body]
  by (simp add: split_text_def separators_def)

lemma occurs_replicate: "c' \<noteq> c \<Longrightarrow> \<not> occurs (c' # r) (replicate n c)"
  by (induction n) simp_all

lemma split_loop_small:
  "\<forall>s \<in> set pieces. length s < C \<Longrightarrow>
   split_loop C O' further pieces good final = final @ flush C O' (good @ pieces)"
  by (induction pieces arbitrary: good) simp_all

lemma merge_loop_fits:
  "tot + length (concat ds) \<le> C \<Longrightarrow>
   merge_loop C O' ds cur tot docs = docs @ join_docs (cur @ ds)"
  by (induction ds arbitrary: cur tot) simp_all

lemma concat_singletons: "concat (map (\<lambda>c. [c]) s) = s"
  by (induction s) simp_all

lemma strip_replicate: "\<not> is_space c \<Longrightarrow> strip (replicate n c) = replicate n c"
  by (cases n) (simp_all add: strip_def replicate_append_same)

lemma split_text_one_chunk:
  assumes "\<not> is_space c" and "0 < n" and "n \<le> C" and "1 < C"
  shows "split_text C O' (replicate n c) = [replicate n c]"
proof -
  let ?s = "replicate n c"
  have c: "c \<noteq> CHR ''\<newline>''" "c \<noteq> CHR '' ''"
    using assms(1) by (auto simp: is_space_def)
  have no: "\<not> occurs ''\<newline>\<newline>'' ?s" "\<not> occurs ''\<newline>'' ?s" "\<not> occurs '' '' ?s"
    using c occurs_replicate by metis+
  have "split_text C O' ?s = split_loop C O' (\<lambda>s. [s]) (map (\<lambda>c. [c]) ?s) [] []"
    using no by (simp add: split_text_def separators_def split_pieces_def)
  also have "\<dots> = flush C O' (map (\<lambda>c. [c]) ?s)"
    using assms(4) by (subst split_loop_small) auto
  also have "\<dots> = merge_loop C O' (map (\<lambda>c. [c]) ?s) [] 0 []"
    using assms(2) by (simp add: flush_def merge_splits_def)
  also have "\<dots> = join_docs (map (\<lambda>c. [c]) ?s)"
    using assms(3) by (subst merge_loop_fits) (simp_all add: concat_singletons)
  also have "\<dots> = [?s]"
    using assms(1,2) by (simp add: join_docs_def concat_singletons strip_replicate)
  finally show ?thesis .
qed

text \<open>
  Claim C3, as stated, fails: at the defaults a document of 1000 characters with no
  separator in it is a single chunk, and the claimed lower bound is 2.
\<close>

theorem chunk_count_counterexample:
  "length (replicate 1000 CHR ''a'') = 1000 \<and>
   split_text 1000 200 (replicate 1000 CHR ''a'') = [replicate 1000 CHR ''a''] \<and>
   \<not> nat \<lceil>(1000 :: real) / (1000 - 200)\<rceil> \<le> length (split_text 1000 200 (replicate 1000 CHR ''a''))"
proof -
  have a: "\<not> is_space CHR ''a''" by (simp add: is_space_def)
  have one: "split_text 1000 200 (replicate 1000 CHR ''a'') = [replicate 1000 CHR ''a'']"
    by (rule split_text_one_chunk [OF a]) simp_all
  have "\<lceil>(1000 :: real) / (1000 - 200)\<rceil> = 2" by (simp add: ceiling_eq_iff)
  with one show ?thesis by simp
qed

lemma filter_dropWhile_not:
  "filter (\<lambda>x. \<not> Q x) (dropWhile Q xs) = filter (\<lambda>x. \<not> Q x) xs"
  by (induction xs) simp_all

lemma nonspace_strip: "nonspace (strip s) = nonspace s"
  by (simp add: nonspace_def strip_def rev_filter [symmetric] filter_dropWhile_not)

lemma nonspace_Nil [simp]: "nonspace [] = 0"
  by (simp add: nonspace_def)

lemma nonspace_le: "nonspace s \<le> length s"
  by (simp add: nonspace_def)

lemma nonspace_append: "nonspace (a @ b) = nonspace a + nonspace b"
  by (simp add: nonspace_def)

lemma join_docs_covers: "nonspace (concat cur) \<le> sum_list (map length (join_docs cur))"
proof (cases "strip (concat cur) = []")
  case True
  then have "nonspace (strip (concat cur)) = 0" by (simp add: nonspace_def)
  then show ?thesis by (simp add: nonspace_strip)
next
  case False
  then show ?thesis
    using nonspace_le [of "strip (concat cur)"]
    by (simp add: join_docs_def nonspace_strip)
qed

lemma merge_loop_covers:
  "sum_list (map length docs) + nonspace (concat cur) + nonspace (concat ds)
     \<le> sum_list (map length (merge_loop C O' ds cur tot docs))"
proof (induction ds arbitrary: cur tot docs)
  case Nil
  then show ?case using join_docs_covers [of cur] by simp
next
  case (Cons d ds)
  show ?case
  proof (cases "tot + length d > C \<and> cur \<noteq> []")
    case True
    obtain kept tot' where pop: "pop_overlap C O' (length d) cur tot = (kept, tot')"
      by (cases "pop_overlap C O' (length d) cur tot")
    have "sum_list (map length docs) + nonspace (concat cur) + nonspace (concat (d # ds))
            \<le> sum_list (map length (docs @ join_docs cur)) + nonspace (concat (kept @ [d])) + nonspace (concat ds)"
      using join_docs_covers [of cur] by (simp add: nonspace_append)
    also have "\<dots> \<le> sum_list (map length (merge_loop C O' ds (kept @ [d]) (tot' + length d) (docs @ join_docs cur)))"
      by (rule Cons.IH)
    finally show ?thesis using True pop by simp
  next
    case False
    have "sum_list (map length docs) + nonspace (concat cur) + nonspace (concat (d # ds))
            = sum_list (map length docs) + nonspace (concat (cur @ [d])) + nonspace (concat ds)"
      by (simp add: nonspace_append)
    also have "\<dots> \<le> sum_list (map length (merge_loop C O' ds (cur @ [d]) (tot + length d) docs))"
      by (rule Cons.IH)
    finally show ?thesis using False by auto
  qed
qed

lemma flush_covers: "nonspace (concat good) \<le> sum_list (map length (flush C O' good))"
proof (cases "good = []")
  case True
  then show ?thesis by (simp add: flush_def nonspace_def)
next
  case False
  then show ?thesis
    using merge_loop_covers [where docs = "[]" and cur = "[]" and ds = good and C = C and O' = O' and tot = 0]
    by (simp add: flush_def merge_splits_def nonspace_def)
qed

lemma split_loop_covers:
  "\<forall>s \<in> set pieces. nonspace s \<le> sum_list (map length (further s)) \<Longrightarrow>
   sum_list (map length final) + nonspace (concat good) + nonspace (concat pieces)
     \<le> sum_list (map length (split_loop C O' further pieces good final))"
proof (induction pieces arbitrary: good final)
  case Nil
  then show ?case using flush_covers [of good C O'] by simp
next
  case (Cons s ss)
  have rest: "\<forall>s \<in> set ss. nonspace s \<le> sum_list (map length (further s))"
    and s: "nonspace s \<le> sum_list (map length (further s))"
    using Cons.prems by simp_all
  show ?case
  proof (cases "length s < C")
    case True
    have "sum_list (map length final) + nonspace (concat good) + nonspace (concat (s # ss))
            = sum_list (map length final) + nonspace (concat (good @ [s])) + nonspace (concat ss)"
      by (simp add: nonspace_append)
    also have "\<dots> \<le> sum_list (map length (split_loop C O' further ss (good @ [s]) final))"
      by (rule Cons.IH [OF rest])
    finally show ?thesis using True by simp
  next
    case False
    have "sum_list (map length final) + nonspace (concat good) + nonspace (concat (s # ss))
            \<le> sum_list (map length (final @ flush C O' good @ further s)) + nonspace (concat []) + nonspace (concat ss)"
      using flush_covers [of good C O'] s by (simp add: nonspace_append nonspace_def)
    also have "\<dots> \<le> sum_list (map length (split_loop C O' further ss [] (final @ flush C O' good @ further s)))"
      by (rule Cons.IH [OF rest])
    finally show ?thesis using False by simp
  qed
qed

lemma concat_split_sep: "concat (split_sep sep cur s) = cur @ s"
proof (induction sep cur s rule: split_sep.induct)
  case (1 sep cur)
  then show ?case by simp
next
  case (2 sep cur c cs)
  show ?case
  proof (cases "sep \<noteq> [] \<and> take (length sep) (c # cs) = sep")
    case True
    then have "sep @ drop (length sep) (c # cs) = c # cs"
      by (metis append_take_drop_id)
    with True 2 show ?thesis by simp
  next
    case False
    with 2 show ?thesis by auto
  qed
qed

lemma concat_filter_nonempty: "concat (filter (\<lambda>s. s \<noteq> []) xs) = concat xs"
  by (induction xs) simp_all

lemma concat_split_pieces: "concat (split_pieces sep s) = s"
  by (simp add: split_pieces_def concat_singletons concat_filter_nonempty concat_split_sep)

lemma split_text_rec_covers:
  "nonspace s \<le> sum_list (map length (split_text_rec C O' seps s))"
proof (induction seps arbitrary: s)
  case Nil
  show ?case
  proof (cases "s = []")
    case True
    then show ?thesis by simp
  next
    case False
    then show ?thesis
      using split_loop_covers [where pieces = "[s]" and further = "\<lambda>s. [s]"
          and final = "[]" and good = "[]" and C = C and O' = O']
      by (simp add: nonspace_le del: split_loop.simps)
  qed
next
  case (Cons sep seps)
  have single: "nonspace s \<le> sum_list (map length (split_loop C O' (\<lambda>s. [s]) (split_pieces sep s) [] []))"
    using split_loop_covers [where pieces = "split_pieces sep s" and further = "\<lambda>s. [s]"
        and final = "[]" and good = "[]" and C = C and O' = O']
    by (simp add: nonspace_le concat_split_pieces nonspace_def)
  have deeper: "nonspace s \<le> sum_list (map length (split_loop C O' (split_text_rec C O' seps) (split_pieces sep s) [] []))"
    using split_loop_covers [where pieces = "split_pieces sep s" and further = "split_text_rec C O' seps"
        and final = "[]" and good = "[]" and C = C and O' = O'] Cons.IH
    by (simp add: concat_split_pieces nonspace_def)
  show ?case using single deeper Cons.IH by auto
qed

lemma sum_list_length_bound:
  "\<forall>x \<in> set xs. length x \<le> C \<Longrightarrow> sum_list (map length xs) \<le> length xs * C"
  by (induction xs) auto

text \<open>
  Claim C3, amended. For every document chunked with chunk size \<open>C\<close> and overlap
  \<open>O < C\<close>, no chunk is longer than \<open>C\<close>, and the chunks together are at least as
  long as the document without its white space: the number of chunks times \<open>C\<close> is
  at least the number of characters that are not white space. The splitter applies
  this to every document of its input, in order.
\<close>

theorem split_document_bounds:
  assumes "O' < C"
  shows "(\<forall>chunk \<in> set (split_document C O' doc). length (page_content chunk) \<le> C) \<and>
         nonspace (page_content doc) \<le> length (split_document C O' doc) * C \<and>
         text_splitter C O' docs = Inr (concat (map (split_document C O') docs))"
proof -
  from assms have C: "0 < C" by simp
  have bound: "\<forall>x \<in> set (split_text C O' (page_content doc)). length x \<le> C"
    using split_text_bound [OF C] by blast
  have "nonspace (page_content doc) \<le> sum_list (map length (split_text C O' (page_content doc)))"
    using split_text_rec_covers by (simp add: split_text_def)
  also have "\<dots> \<le> length (split_text C O' (page_content doc)) * C"
    by (rule sum_list_length_bound [OF bound])
  finally have count: "nonspace (page_content doc) \<le> length (split_document C O' doc) * C"
    by (simp add: split_document_def)
  show ?thesis using bound count assms by (simp add: split_document_def text_splitter_def)
qed

text \<open>Ten letters, chunks of four with an overlap of one.\<close>

theorem split_document_bounds_witness:
  "(1 :: nat) < 4 \<and>
   text_splitter 4 1 [\<lparr>page_content = ''abcdefghij'', metadata = [(''source'', ''cv.pdf'')]\<rparr>] =
     Inr [\<lparr>page_content = ''abcd'', metadata = [(''source'', ''cv.pdf'')]\<rparr>,
          \<lparr>page_content = ''defg'', metadata = [(''source'', ''cv.pdf'')]\<rparr>,
          \<lparr>page_content = ''ghij'', metadata = [(''source'', ''cv.pdf'')]\<rparr>] \<and>
   nonspace ''abcdefghij'' \<le> 3 * 4"
proof -
  let ?doc = "\<lparr>page_content = ''abcdefghij'', metadata = [(''source'', ''cv.pdf'')]\<rparr>"
  have ev: "split_document 4 1 ?doc =
     [\<lparr>page_content = ''abcd'', metadata = [(''source'', ''cv.pdf'')]\<rparr>,
      \<lparr>page_content = ''defg'', metadata = [(''source'', ''cv.pdf'')]\<rparr>,
      \<lparr>page_content = ''ghij'', metadata = [(''source'', ''cv.pdf'')]\<rparr>]"
    by code_simp
  show ?thesis
    using split_document_bounds [of 1 4 ?doc "[?doc]"] ev
    by simp
qed

end
